theory Spec2Isabelle
  imports Complex_Main "HOL-Library.Word" "HOL-Library.Log_Nat"
begin

section \<open>C strings and formatted output\<close>

text \<open>
  A C string is the list of its bytes before the terminating NUL.  \<open>snprintf\<close> and the
  \<open>strncpy\<close>-then-terminate idiom of the server both leave at most \<open>n - 1\<close> bytes of
  the text in a buffer of \<open>n\<close> bytes.
\<close>

definition MCP_BUFFER_SIZE :: nat where
  "MCP_BUFFER_SIZE = 4096"

definition snprintf :: "nat \<Rightarrow> string \<Rightarrow> string" where
  "snprintf n s = take (n - 1) s"

definition strncpy_terminated :: "nat \<Rightarrow> string \<Rightarrow> string" where
  "strncpy_terminated n s = take (n - 1) s"

definition strlen :: "string \<Rightarrow> int" where
  "strlen s = int (length s)"

definition digit_char :: "nat \<Rightarrow> char" where
  "digit_char d = ''0123456789'' ! d"

fun show_nat :: "nat \<Rightarrow> string" where
  "show_nat n = (if n < 10 then [digit_char n] else show_nat (n div 10) @ [digit_char (n mod 10)])"

declare show_nat.simps [simp del]

text \<open>The conversion \<open>%d\<close>.\<close>

definition show_int :: "int \<Rightarrow> string" where
  "show_int i = (if i < 0 then CHR ''-'' # show_nat (nat (- i)) else show_nat (nat i))"

section \<open>Numbers\<close>

text \<open>
  A \<open>double\<close> is modelled by the exact rational value of a finite double.  Conversions
  to integer types truncate toward zero.  C leaves the conversion of a value outside
  0..255 to \<open>uint8_t\<close> undefined; the model takes its usual outcome, the low eight bits of
  the truncated value.  Signed zero and the infinities that an overflowing literal or sum
  produces are not represented.
\<close>

type_synonym double = rat

definition INT_MAX :: int where
  "INT_MAX = 2147483647"

definition INT_MIN :: int where
  "INT_MIN = - 2147483648"

definition trunc_toward_zero :: "double \<Rightarrow> int" where
  "trunc_toward_zero x = (if 0 \<le> x then \<lfloor>x\<rfloor> else \<lceil>x\<rceil>)"

definition uint8_of_double :: "double \<Rightarrow> 8 word" where
  "uint8_of_double x = word_of_int (trunc_toward_zero x)"

definition fmin :: "double \<Rightarrow> double \<Rightarrow> double" where
  "fmin x y = (if x \<le> y then x else y)"

definition fmax :: "double \<Rightarrow> double \<Rightarrow> double" where
  "fmax x y = (if x \<le> y then y else x)"

definition round_half_even :: "rat \<Rightarrow> int" where
  "round_half_even x =
     (let f = \<lfloor>x\<rfloor>; d = x - of_int f
      in if d < 1 / 2 then f else if 1 / 2 < d then f + 1 else if even f then f else f + 1)"

text \<open>The conversion \<open>%.2f\<close>: sign, integer digits, point, two correctly rounded decimals.\<close>

definition fmt_2f :: "double \<Rightarrow> string" where
  "fmt_2f x =
     (let n = nat (round_half_even (\<bar>x\<bar> * 100))
      in (if x < 0 then ''-'' else '''') @ show_nat (n div 100) @ ''.''
           @ [digit_char (n div 10 mod 10), digit_char (n mod 10)])"

text \<open>
  Addition and multiplication of doubles: the exact result, rounded to the nearest value
  with a 53-bit significand (ties to even), subnormals included.
\<close>

definition floor_log2 :: "rat \<Rightarrow> int" where
  "floor_log2 x =
     (let (p, q) = quotient_of x;
          e = int (floorlog 2 (nat p)) - int (floorlog 2 (nat q))
      in if 2 powi e \<le> x then e else e - 1)"

definition double_round :: "rat \<Rightarrow> double" where
  "double_round x =
     (if x = 0 then 0
      else
        let e = max (floor_log2 \<bar>x\<bar>) (- 1022);
            ulp = 2 powi (e - 52)
        in of_int (round_half_even (x / ulp)) * ulp)"

definition double_add :: "double \<Rightarrow> double \<Rightarrow> double" where
  "double_add a b = double_round (a + b)"

definition double_mul :: "double \<Rightarrow> double \<Rightarrow> double" where
  "double_mul a b = double_round (a * b)"

section \<open>JSON documents (cJSON)\<close>

text \<open>
  The document tree that \<open>cJSON_Parse\<close> builds.  A \<open>NULL\<close> item pointer is \<open>None\<close>.
  Member lookup with \<open>cJSON_GetObjectItem\<close> compares names without regard to case and
  returns the first match; any item that is not an object has no members.
\<close>

datatype cJSON =
    cJSON_NULL
  | cJSON_False
  | cJSON_True
  | cJSON_Number double
  | cJSON_String string
  | cJSON_Array "cJSON list"
  | cJSON_Object "(string \<times> cJSON) list"

definition tolower :: "char \<Rightarrow> char" where
  "tolower c =
     (case map_of (zip ''ABCDEFGHIJKLMNOPQRSTUVWXYZ'' ''abcdefghijklmnopqrstuvwxyz'') c of
        Some l \<Rightarrow> l
      | None \<Rightarrow> c)"

definition case_insensitive_eq :: "string \<Rightarrow> string \<Rightarrow> bool" where
  "case_insensitive_eq a b = (map tolower a = map tolower b)"

fun cJSON_GetObjectItem :: "cJSON \<Rightarrow> string \<Rightarrow> cJSON option" where
  "cJSON_GetObjectItem (cJSON_Object members) name =
     map_option snd (find (\<lambda>(k, v). case_insensitive_eq name k) members)"
| "cJSON_GetObjectItem _ name = None"

declare cJSON_GetObjectItem.simps [simp del]

text \<open>
  The field \<open>valueint\<close> of an item: the parser stores the saturated integer value of a
  number, 1 for \<open>true\<close>, and leaves 0 in every other item.
\<close>

fun valueint :: "cJSON \<Rightarrow> int" where
  "valueint (cJSON_Number d) =
     (if of_int INT_MAX \<le> d then INT_MAX
      else if d \<le> of_int INT_MIN then INT_MIN
      else trunc_toward_zero d)"
| "valueint cJSON_True = 1"
| "valueint _ = 0"

section \<open>The LED command queue\<close>

datatype led_command_type_t = LED_CMD_SET_COLOR | LED_CMD_OFF

record led_command_t =
  cmd_type :: led_command_type_t
  cmd_r :: "8 word"
  cmd_g :: "8 word"
  cmd_b :: "8 word"
  cmd_brightness :: "8 word"

text \<open>
  The global queue handle is \<open>None\<close> while it is \<open>NULL\<close>.  Each call of \<open>xQueueSend\<close> is
  recorded with the command and the number of ticks the caller is prepared to wait.
\<close>

type_synonym QueueHandle_t = "nat option"

type_synonym queue_send = "led_command_t \<times> nat"

definition portMAX_DELAY :: nat where
  "portMAX_DELAY = 4294967295"

definition xQueueSend_if_created :: "QueueHandle_t \<Rightarrow> led_command_t \<Rightarrow> nat \<Rightarrow> queue_send list" where
  "xQueueSend_if_created led_command_queue led_cmd ticks =
     (if led_command_queue \<noteq> None then [(led_cmd, ticks)] else [])"

text \<open>The initialiser \<open>{0}\<close>.\<close>

definition led_cmd_zero :: led_command_t where
  "led_cmd_zero =
     \<lparr>cmd_type = LED_CMD_SET_COLOR, cmd_r = 0, cmd_g = 0, cmd_b = 0, cmd_brightness = 0\<rparr>"

section \<open>Method and tool handlers (mcp_server.c)\<close>

text \<open>
  A handler returns its \<open>int\<close> result, the text it left in the response buffer, and the
  queue sends it made.
\<close>

type_synonym handler_result = "int \<times> string \<times> queue_send list"

definition init_response :: string where
  \<open>init_response = ''{"protocolVersion":"2024-11-05","capabilities":{"tools":{"listChanged":false}},"serverInfo":{"name":"esp32-s3-mcp","version":"0.1.0"}}''\<close>

definition handle_initialize :: "nat \<Rightarrow> handler_result" where
  "handle_initialize response_size =
     (let response = strncpy_terminated response_size init_response
      in (strlen response, response, []))"

definition tools_response :: string where
  \<open>tools_response = ''{"tools":[{"name":"wifi_status","description":"Get WiFi status","inputSchema":{"type":"object","properties":{"detailed":{"type":"boolean"}}}},{"name":"led_control","description":"Control LED","inputSchema":{"type":"object","properties":{"color":{"type":"string","enum":["red","green","blue","yellow","magenta","cyan","white","off"]},"r":{"type":"integer","minimum":0,"maximum":255},"g":{"type":"integer","minimum":0,"maximum":255},"b":{"type":"integer","minimum":0,"maximum":255},"brightness":{"type":"integer","minimum":0,"maximum":100}}}},{"name":"compute_add","description":"Add numbers","inputSchema":{"type":"object","properties":{"a":{"type":"number"},"b":{"type":"number"}},"required":["a","b"]}},{"name":"compute_multiply","description":"Multiply numbers","inputSchema":{"type":"object","properties":{"a":{"type":"number"},"b":{"type":"number"}},"required":["a","b"]}}]}''\<close>

definition handle_tools_list :: "nat \<Rightarrow> handler_result" where
  "handle_tools_list response_size =
     (let response = strncpy_terminated response_size tools_response
      in (strlen response, response, []))"

definition handle_wifi_status :: "cJSON option \<Rightarrow> nat \<Rightarrow> handler_result" where
  \<open>handle_wifi_status arguments response_size =
     (let detailed =
            (case arguments of
               None \<Rightarrow> False
             | Some args \<Rightarrow>
                 (case cJSON_GetObjectItem args ''detailed'' of
                    Some cJSON_True \<Rightarrow> True
                  | _ \<Rightarrow> False));
          response =
            (if detailed then
               snprintf response_size
                 (''{"content":[{"type":"text","text":"WiFi Status (Detailed):'' @ [CHR 0x5C]
                  @ ''n- Connected: true'' @ [CHR 0x5C] @ ''n- IP: 192.168.1.100'' @ [CHR 0x5C]
                  @ ''n- RSSI: -45 dBm'' @ [CHR 0x5C] @ ''n- SSID: MyWiFiNetwork'' @ [CHR 0x5C]
                  @ ''n- Channel: 6"}]}'')
             else
               snprintf response_size
                 (''{"content":[{"type":"text","text":"WiFi Status:'' @ [CHR 0x5C]
                  @ ''n- Connected: true'' @ [CHR 0x5C] @ ''n- IP: 192.168.1.100"}]}''))
      in (strlen response, response, []))\<close>

text \<open>
  The outcome of the chain of comparisons on \<open>color\<close>: a predefined triple (with
  \<open>color_set\<close> true), the early return for \<open>off\<close>, or nothing recognised.
\<close>

datatype color_choice = Color_Set "8 word" "8 word" "8 word" | Color_Off | Color_None

definition match_color :: "cJSON option \<Rightarrow> color_choice" where
  "match_color color =
     (case color of
        Some (cJSON_String valuestring) \<Rightarrow>
          if valuestring = ''red'' then Color_Set 255 0 0
          else if valuestring = ''green'' then Color_Set 0 255 0
          else if valuestring = ''blue'' then Color_Set 0 0 255
          else if valuestring = ''yellow'' then Color_Set 255 255 0
          else if valuestring = ''magenta'' then Color_Set 255 0 255
          else if valuestring = ''cyan'' then Color_Set 0 255 255
          else if valuestring = ''white'' then Color_Set 255 255 255
          else if valuestring = ''off'' then Color_Off
          else Color_None
      | _ \<Rightarrow> Color_None)"

text \<open>A component is overwritten only by a member that is present and a number.\<close>

definition rgb_component :: "cJSON option \<Rightarrow> 8 word \<Rightarrow> 8 word" where
  "rgb_component item dflt =
     (case item of Some (cJSON_Number d) \<Rightarrow> uint8_of_double d | _ \<Rightarrow> dflt)"

definition parse_brightness :: "cJSON option \<Rightarrow> 8 word" where
  "parse_brightness brightness_item =
     (case brightness_item of
        Some (cJSON_Number d) \<Rightarrow> uint8_of_double (fmin 100 (fmax 0 d))
      | _ \<Rightarrow> 20)"

definition led_set_text :: "8 word \<Rightarrow> 8 word \<Rightarrow> 8 word \<Rightarrow> 8 word \<Rightarrow> string" where
  \<open>led_set_text r g b brightness =
     ''{"content":[{"type":"text","text":"LED set to RGB('' @ show_int (uint r) @ '', ''
       @ show_int (uint g) @ '', '' @ show_int (uint b) @ '') with ''
       @ show_int (uint brightness) @ ''% brightness"}]}''\<close>

definition handle_led_control :: "QueueHandle_t \<Rightarrow> cJSON option \<Rightarrow> nat \<Rightarrow> handler_result" where
  \<open>handle_led_control led_command_queue arguments response_size =
     (case arguments of
        None \<Rightarrow>
          (- 1,
           snprintf response_size ''{"code":-32602,"message":"LED control requires arguments"}'',
           [])
      | Some args \<Rightarrow>
          (case match_color (cJSON_GetObjectItem args ''color'') of
             Color_Off \<Rightarrow>
               (let led_cmd = led_cmd_zero\<lparr>cmd_type := LED_CMD_OFF\<rparr>;
                    response =
                      snprintf response_size
                        ''{"content":[{"type":"text","text":"LED turned off"}]}''
                in (strlen response, response,
                    xQueueSend_if_created led_command_queue led_cmd portMAX_DELAY))
           | choice \<Rightarrow>
               (let (r, g, b) =
                      (case choice of
                         Color_Set pr pg pb \<Rightarrow> (pr, pg, pb)
                       | _ \<Rightarrow>
                           (rgb_component (cJSON_GetObjectItem args ''r'') 255,
                            rgb_component (cJSON_GetObjectItem args ''g'') 255,
                            rgb_component (cJSON_GetObjectItem args ''b'') 255));
                    brightness = parse_brightness (cJSON_GetObjectItem args ''brightness'');
                    led_cmd =
                      led_cmd_zero
                        \<lparr>cmd_type := LED_CMD_SET_COLOR, cmd_r := r, cmd_g := g, cmd_b := b,
                         cmd_brightness := brightness\<rparr>;
                    response = snprintf response_size (led_set_text r g b brightness)
                in (strlen response, response,
                    xQueueSend_if_created led_command_queue led_cmd portMAX_DELAY))))\<close>

definition handle_compute_add :: "cJSON option \<Rightarrow> nat \<Rightarrow> handler_result" where
  \<open>handle_compute_add arguments response_size =
     (case arguments of
        None \<Rightarrow>
          (- 1,
           snprintf response_size ''{"code":-32602,"message":"Addition requires arguments"}'',
           [])
      | Some args \<Rightarrow>
          (case (cJSON_GetObjectItem args ''a'', cJSON_GetObjectItem args ''b'') of
             (Some (cJSON_Number a), Some (cJSON_Number b)) \<Rightarrow>
               (let result = double_add a b;
                    response =
                      snprintf response_size
                        (''{"content":[{"type":"text","text":"'' @ fmt_2f a @ '' + '' @ fmt_2f b
                         @ '' = '' @ fmt_2f result @ ''"}]}'')
                in (strlen response, response, []))
           | _ \<Rightarrow>
               (- 1,
                snprintf response_size
                  ''{"code":-32602,"message":"Both 'a' and 'b' parameters required"}'',
                [])))\<close>

definition handle_compute_multiply :: "cJSON option \<Rightarrow> nat \<Rightarrow> handler_result" where
  \<open>handle_compute_multiply arguments response_size =
     (case arguments of
        None \<Rightarrow>
          (- 1,
           snprintf response_size
             ''{"code":-32602,"message":"Multiplication requires arguments"}'',
           [])
      | Some args \<Rightarrow>
          (case (cJSON_GetObjectItem args ''a'', cJSON_GetObjectItem args ''b'') of
             (Some (cJSON_Number a), Some (cJSON_Number b)) \<Rightarrow>
               (let result = double_mul a b;
                    response =
                      snprintf response_size
                        (''{"content":[{"type":"text","text":"'' @ fmt_2f a @ '' ''
                         @ [CHR 0xC3, CHR 0x83, CHR 0xE2, CHR 0x80, CHR 0x94] @ '' '' @ fmt_2f b
                         @ '' = '' @ fmt_2f result @ ''"}]}'')
                in (strlen response, response, []))
           | _ \<Rightarrow>
               (- 1,
                snprintf response_size
                  ''{"code":-32602,"message":"Both 'a' and 'b' parameters required"}'',
                [])))\<close>

definition handle_tools_call :: "QueueHandle_t \<Rightarrow> cJSON option \<Rightarrow> nat \<Rightarrow> handler_result" where
  \<open>handle_tools_call led_command_queue params response_size =
     (case params of
        None \<Rightarrow>
          (- 1, snprintf response_size ''{"code":-32602,"message":"Invalid params"}'', [])
      | Some p \<Rightarrow>
          (let name = cJSON_GetObjectItem p ''name'';
               arguments = cJSON_GetObjectItem p ''arguments''
           in case name of
                Some (cJSON_String valuestring) \<Rightarrow>
                  if valuestring = ''wifi_status'' then
                    handle_wifi_status arguments response_size
                  else if valuestring = ''led_control'' then
                    handle_led_control led_command_queue arguments response_size
                  else if valuestring = ''compute_add'' then
                    handle_compute_add arguments response_size
                  else if valuestring = ''compute_multiply'' then
                    handle_compute_multiply arguments response_size
                  else
                    (- 1,
                     snprintf response_size ''{"code":-32601,"message":"Tool not found"}'',
                     [])
              | _ \<Rightarrow>
                  (- 1,
                   snprintf response_size ''{"code":-32602,"message":"Missing tool name"}'',
                   [])))\<close>

section \<open>The request dispatcher\<close>

text \<open>
  \<open>handle_mcp_request\<close> returns \<open>None\<close> where the C function returns 0 without
  writing a response, and otherwise the text left in the response buffer (its length is
  the C return value), together with the queue sends made on the way.  The parser of the
  cJSON library is a parameter.
\<close>

definition parse_error_response :: string where
  \<open>parse_error_response = ''{"jsonrpc":"2.0","id":null,"error":{"code":-32700,"message":"Parse error"}}''\<close>

definition handle_mcp_request ::
  "(string \<Rightarrow> cJSON option) \<Rightarrow> QueueHandle_t \<Rightarrow> string \<Rightarrow> nat \<Rightarrow> string option \<times> queue_send list" where
  \<open>handle_mcp_request cJSON_Parse led_command_queue request response_size =
     (case cJSON_Parse request of
        None \<Rightarrow> (Some (strncpy_terminated response_size parse_error_response), [])
      | Some json \<Rightarrow>
          (let method = cJSON_GetObjectItem json ''method'';
               id_item = cJSON_GetObjectItem json ''id'';
               params = cJSON_GetObjectItem json ''params''
           in case method of
                Some (cJSON_String valuestring) \<Rightarrow>
                  (case id_item of
                     None \<Rightarrow> (None, [])
                   | Some cJSON_NULL \<Rightarrow> (None, [])
                   | Some id_value \<Rightarrow>
                       (let (success, result_buffer, sends) =
                              (if valuestring = ''initialize'' then
                                 handle_initialize MCP_BUFFER_SIZE
                               else if valuestring = ''tools/list'' then
                                 handle_tools_list MCP_BUFFER_SIZE
                               else if valuestring = ''tools/call'' then
                                 handle_tools_call led_command_queue params MCP_BUFFER_SIZE
                               else
                                 (- 1,
                                  snprintf MCP_BUFFER_SIZE
                                    ''{"code":-32601,"message":"Method not found"}'',
                                  []));
                            response =
                              (if 0 < success then
                                 snprintf response_size
                                   (''{"jsonrpc":"2.0","id":'' @ show_int (valueint id_value)
                                    @ '',"result":'' @ result_buffer @ ''}'')
                               else
                                 snprintf response_size
                                   (''{"jsonrpc":"2.0","id":'' @ show_int (valueint id_value)
                                    @ '',"error":'' @ result_buffer @ ''}''))
                        in (Some response, sends)))
              | _ \<Rightarrow> (None, [])))\<close>

text \<open>A parser that accepts no text, for the examples in which nothing parses.\<close>

definition parse_nothing :: "string \<Rightarrow> cJSON option" where
  "parse_nothing text = None"

section \<open>The connection loop\<close>

text \<open>
  The transport is given by what it delivers: the byte chunks returned by the successive
  calls of \<open>recv\<close> (each between 1 and \<open>MCP_BUFFER_SIZE - 1\<close> bytes; the end of the
  list, or an empty chunk, is the end of the connection) and the results of the successive
  calls of \<open>send\<close> (a byte count, or a negative number for an error; a transport with
  no further result fails).
\<close>

definition NUL :: char where
  "NUL = CHR 0x00"

definition newline :: char where
  "newline = CHR 0x0A"

text \<open>The string that C sees in a received buffer ends at the first NUL byte.\<close>

definition c_str :: "string \<Rightarrow> string" where
  "c_str bytes = takeWhile (\<lambda>c. c \<noteq> NUL) bytes"

definition strncat :: "string \<Rightarrow> string \<Rightarrow> nat \<Rightarrow> string" where
  "strncat dest src n = dest @ take n (c_str src)"

text \<open>\<open>strchr\<close> for the newline: the text before the first newline and the text after it.\<close>

definition strchr_newline :: "string \<Rightarrow> (string \<times> string) option" where
  "strchr_newline s =
     (if newline \<in> set s
      then Some (takeWhile (\<lambda>c. c \<noteq> newline) s, tl (dropWhile (\<lambda>c. c \<noteq> newline) s))
      else None)"

text \<open>
  The state of one connection: the pending buffer and the unused send results, with the
  observations made so far: the lines handed to \<open>handle_mcp_request\<close>, the bytes the
  transport accepted, the queue sends, and whether the function has returned on a send
  error.
\<close>

record conn_state =
  pending_data :: string
  send_results :: "int list"
  dispatched :: "string list"
  written :: string
  led_sends :: "queue_send list"
  send_failed :: bool

fun send_loop :: "string \<Rightarrow> int \<Rightarrow> int \<Rightarrow> int list \<Rightarrow> bool \<times> string \<times> int list" where
  "send_loop response_buffer response_len to_write results =
     (if 0 < to_write then
        (case results of
           [] \<Rightarrow> (False, [], [])
         | sent # rest \<Rightarrow>
             if sent < 0 then (False, [], rest)
             else
               (let (ok, out, rest') =
                      send_loop response_buffer response_len (to_write - sent) rest
                in (ok,
                    take (nat sent) (drop (nat (response_len - to_write)) response_buffer) @ out,
                    rest')))
      else (True, [], results))"

declare send_loop.simps [simp del]

text \<open>
  The body of the inner loop of \<open>handle_mcp_connection\<close> for one line that is not
  empty: the line is handed to \<open>handle_mcp_request\<close>, and a response of positive length
  is sent with a newline added.  A send error is recorded; the function returns on it.
\<close>

definition dispatch_line ::
  "(string \<Rightarrow> cJSON option) \<Rightarrow> QueueHandle_t \<Rightarrow> string \<Rightarrow> conn_state \<Rightarrow> conn_state" where
  "dispatch_line cJSON_Parse led_command_queue line st =
     (let (response, sends) =
            handle_mcp_request cJSON_Parse led_command_queue line MCP_BUFFER_SIZE;
          st1 = st\<lparr>dispatched := dispatched st @ [line],
                   led_sends := led_sends st @ sends\<rparr>
      in case response of
           None \<Rightarrow> st1
         | Some response_buffer \<Rightarrow>
             if 0 < length response_buffer then
               (let to_send =
                      (if length response_buffer < MCP_BUFFER_SIZE - 1
                       then response_buffer @ [newline] else response_buffer);
                    response_len = strlen to_send;
                    (ok, out, results) =
                      send_loop to_send response_len response_len (send_results st1);
                    st2 = st1\<lparr>written := written st1 @ out, send_results := results\<rparr>
                in if ok then st2 else st2\<lparr>send_failed := True\<rparr>)
             else st1)"

text \<open>
  The inner loop, from \<open>line_start\<close> on: every line that ends in a newline is cut off
  and, unless it is empty, dispatched.  A send error ends the function; else the text
  after the last newline is moved to the front of the pending buffer.
\<close>

function process_lines ::
  "(string \<Rightarrow> cJSON option) \<Rightarrow> QueueHandle_t \<Rightarrow> string \<Rightarrow> conn_state \<Rightarrow> conn_state" where
  "process_lines cJSON_Parse led_command_queue line_start st =
     (case strchr_newline line_start of
        None \<Rightarrow> st\<lparr>pending_data := line_start\<rparr>
      | Some (line, rest) \<Rightarrow>
          if 0 < length line then
            (let st1 = dispatch_line cJSON_Parse led_command_queue line st
             in if send_failed st1 then st1
                else process_lines cJSON_Parse led_command_queue rest st1)
          else process_lines cJSON_Parse led_command_queue rest st)"
  by pat_completeness auto
termination
proof -
  have shorter: "length rest < length s" if "strchr_newline s = Some (line, rest)" for s line rest
  proof -
    from that have mem: "newline \<in> set s"
      and rest: "rest = tl (dropWhile (\<lambda>c. c \<noteq> newline) s)"
      by (auto simp: strchr_newline_def split: if_splits)
    from mem have "dropWhile (\<lambda>c. c \<noteq> newline) s \<noteq> []"
      by simp
    then have "length (tl (dropWhile (\<lambda>c. c \<noteq> newline) s))
        < length (dropWhile (\<lambda>c. c \<noteq> newline) s)"
      by (cases "dropWhile (\<lambda>c. c \<noteq> newline) s") auto
    also have "\<dots> \<le> length s"
      by (rule length_dropWhile_le)
    finally show ?thesis
      using rest by simp
  qed
  show ?thesis
    by (relation "measure (\<lambda>(p, q, line_start, st). length line_start)") (auto dest: shorter)
qed

declare process_lines.simps [simp del]

text \<open>The outer loop: one iteration for each chunk that \<open>recv\<close> returns.\<close>

fun connection_loop ::
  "(string \<Rightarrow> cJSON option) \<Rightarrow> QueueHandle_t \<Rightarrow> string list \<Rightarrow> conn_state \<Rightarrow> conn_state" where
  "connection_loop cJSON_Parse led_command_queue [] st = st"
| "connection_loop cJSON_Parse led_command_queue (rx_buffer # chunks) st =
     (if length rx_buffer = 0 then st
      else
        (let pending =
               strncat (pending_data st) rx_buffer
                 (MCP_BUFFER_SIZE - length (pending_data st) - 1);
             st1 = process_lines cJSON_Parse led_command_queue pending st
         in if send_failed st1 then st1
            else connection_loop cJSON_Parse led_command_queue chunks st1))"

definition handle_mcp_connection ::
  "(string \<Rightarrow> cJSON option) \<Rightarrow> QueueHandle_t \<Rightarrow> string list \<Rightarrow> int list \<Rightarrow> conn_state" where
  "handle_mcp_connection cJSON_Parse led_command_queue chunks results =
     connection_loop cJSON_Parse led_command_queue chunks
       \<lparr>pending_data = [], send_results = results, dispatched = [], written = [],
        led_sends = [], send_failed = False\<rparr>"

section \<open>The server task\<close>

text \<open>
  One accepted client: the LED is asked to turn green without waiting, the connection is
  served, and the LED is asked to turn blue again.  The task serves the accepted clients
  one after the other, if the listening socket could be set up.
\<close>

definition client_session ::
  "(string \<Rightarrow> cJSON option) \<Rightarrow> QueueHandle_t \<Rightarrow> string list \<times> int list \<Rightarrow> queue_send list" where
  "client_session cJSON_Parse led_command_queue client =
     (let led_cmd =
            \<lparr>cmd_type = LED_CMD_SET_COLOR, cmd_r = 0, cmd_g = 255, cmd_b = 0,
             cmd_brightness = 20\<rparr>;
          connected = xQueueSend_if_created led_command_queue led_cmd 0;
          st = handle_mcp_connection cJSON_Parse led_command_queue (fst client) (snd client);
          led_cmd' = led_cmd\<lparr>cmd_r := 0, cmd_g := 0, cmd_b := 255\<rparr>;
          disconnected = xQueueSend_if_created led_command_queue led_cmd' 0
      in connected @ led_sends st @ disconnected)"

definition mcp_server_task ::
  "(string \<Rightarrow> cJSON option) \<Rightarrow> QueueHandle_t \<Rightarrow> bool \<Rightarrow> (string list \<times> int list) list
     \<Rightarrow> queue_send list" where
  "mcp_server_task cJSON_Parse led_command_queue listening clients =
     (if listening then concat (map (client_session cJSON_Parse led_command_queue) clients)
      else [])"

section \<open>The message stream, as the specification describes it\<close>

text \<open>
  A message is everything up to, and excluding, a line feed.  \<open>split_lines\<close> reads a
  byte stream from the left, with the bytes of the current line so far, and returns the
  completed lines and the bytes after the last line feed.
\<close>

fun split_lines :: "string \<Rightarrow> string \<Rightarrow> string list \<times> string" where
  "split_lines cur [] = ([], cur)"
| "split_lines cur (c # cs) =
     (if c = newline then (let (ls, r) = split_lines [] cs in (cur # ls, r))
      else split_lines (cur @ [c]) cs)"

definition stream_messages :: "string \<Rightarrow> string list" where
  "stream_messages s = filter (\<lambda>l. l \<noteq> []) (fst (split_lines [] s))"

definition stream_remainder :: "string \<Rightarrow> string" where
  "stream_remainder s = snd (split_lines [] s)"

text \<open>
  The chunks of a connection fit the pending buffer when each of them is not empty, has no
  NUL byte, and is no longer than the room that the bytes retained before it leave.
\<close>

fun chunks_fit :: "string \<Rightarrow> string list \<Rightarrow> bool" where
  "chunks_fit pending [] = True"
| "chunks_fit pending (chunk # chunks) =
     (chunk \<noteq> [] \<and> NUL \<notin> set chunk
      \<and> length pending + length chunk \<le> MCP_BUFFER_SIZE - 1
      \<and> chunks_fit (stream_remainder (pending @ chunk)) chunks)"

section \<open>Start-up (app_main)\<close>

text \<open>
  \<open>app_main\<close> creates the queue, then the LED task, then the server task, and returns
  at the first of these steps that fails.  The results of \<open>xQueueCreate\<close> and of the two
  calls of \<open>xTaskCreate\<close> are parameters; the outcome is the queue handle and whether each
  task runs.
\<close>

record tasks =
  led_command_queue_handle :: QueueHandle_t
  led_control_task_running :: bool
  mcp_server_task_running :: bool

definition app_main :: "QueueHandle_t \<Rightarrow> bool \<Rightarrow> bool \<Rightarrow> tasks" where
  "app_main xQueueCreate_result led_task_created mcp_task_created =
     (if xQueueCreate_result = None then
        \<lparr>led_command_queue_handle = None, led_control_task_running = False,
         mcp_server_task_running = False\<rparr>
      else if \<not> led_task_created then
        \<lparr>led_command_queue_handle = xQueueCreate_result, led_control_task_running = False,
         mcp_server_task_running = False\<rparr>
      else
        \<lparr>led_command_queue_handle = xQueueCreate_result, led_control_task_running = True,
         mcp_server_task_running = mcp_task_created\<rparr>)"

section \<open>Properties of the dispatcher\<close>

lemmas lookup_simps = cJSON_GetObjectItem.simps case_insensitive_eq_def tolower_def

lemmas format_simps = snprintf_def strncpy_terminated_def strlen_def MCP_BUFFER_SIZE_def
  show_int_def show_nat.simps digit_char_def

lemmas number_simps = trunc_toward_zero_def uint8_of_double_def fmin_def fmax_def
  rgb_component_def parse_brightness_def

lemma request_without_method:
  \<open>cJSON_Parse request = Some json \<Longrightarrow>
   \<forall>valuestring. cJSON_GetObjectItem json ''method'' \<noteq> Some (cJSON_String valuestring) \<Longrightarrow>
   handle_mcp_request cJSON_Parse led_command_queue request response_size = (None, [])\<close>
  unfolding handle_mcp_request_def Let_def
  by (simp split: option.split cJSON.split)

lemma request_without_id:
  \<open>cJSON_Parse request = Some json \<Longrightarrow>
   cJSON_GetObjectItem json ''id'' = None \<or> cJSON_GetObjectItem json ''id'' = Some cJSON_NULL \<Longrightarrow>
   handle_mcp_request cJSON_Parse led_command_queue request response_size = (None, [])\<close>
  unfolding handle_mcp_request_def Let_def
  by (erule disjE) (simp_all split: option.split cJSON.split)

lemma request_unparsed:
  \<open>cJSON_Parse request = None \<Longrightarrow>
   handle_mcp_request cJSON_Parse led_command_queue request MCP_BUFFER_SIZE =
     (Some ''{"jsonrpc":"2.0","id":null,"error":{"code":-32700,"message":"Parse error"}}'', [])\<close>
  by (simp add: handle_mcp_request_def strncpy_terminated_def parse_error_response_def
      MCP_BUFFER_SIZE_def)

lemma dispatch_without_response:
  "handle_mcp_request cJSON_Parse led_command_queue line MCP_BUFFER_SIZE = (None, sends) \<Longrightarrow>
   dispatch_line cJSON_Parse led_command_queue line st =
     st\<lparr>dispatched := dispatched st @ [line], led_sends := led_sends st @ sends\<rparr>"
  by (simp add: dispatch_line_def)

text \<open>
  Claim C2.  A parsed request whose \<open>id\<close> member is absent or JSON null gets no response
  from \<open>handle_mcp_request\<close>, whatever its method and parameters are, and no LED command
  is sent for it; the connection loop then writes nothing to the transport for that line.
\<close>

theorem notification_never_answered:
  \<open>cJSON_Parse request = Some json \<Longrightarrow>
   cJSON_GetObjectItem json ''id'' = None \<or> cJSON_GetObjectItem json ''id'' = Some cJSON_NULL \<Longrightarrow>
   handle_mcp_request cJSON_Parse led_command_queue request MCP_BUFFER_SIZE = (None, [])
   \<and> written (dispatch_line cJSON_Parse led_command_queue request st) = written st
   \<and> send_results (dispatch_line cJSON_Parse led_command_queue request st) = send_results st\<close>
proof -
  assume "cJSON_Parse request = Some json"
    and "cJSON_GetObjectItem json ''id'' = None
      \<or> cJSON_GetObjectItem json ''id'' = Some cJSON_NULL"
  then have none:
    "handle_mcp_request cJSON_Parse led_command_queue request MCP_BUFFER_SIZE = (None, [])"
    by (rule request_without_id)
  then show ?thesis
    by (simp add: dispatch_without_response [OF none])
qed

theorem notification_never_answered_witness:
  \<open>cJSON_GetObjectItem
      (cJSON_Object [(''jsonrpc'', cJSON_String ''2.0''), (''method'', cJSON_String ''tools/call''),
         (''params'', cJSON_Object [(''name'', cJSON_String ''led_control'')])]) ''id'' = None
    \<and> handle_mcp_request
        (\<lambda>text. Some (cJSON_Object [(''jsonrpc'', cJSON_String ''2.0''),
           (''method'', cJSON_String ''tools/call''),
           (''params'', cJSON_Object [(''name'', cJSON_String ''led_control'')])]))
        (Some 1) ''{"jsonrpc":"2.0","method":"tools/call","params":{"name":"led_control"}}''
        MCP_BUFFER_SIZE = (None, [])\<close>
  using notification_never_answered
    [of "\<lambda>text. Some (cJSON_Object [(''jsonrpc'', cJSON_String ''2.0''),
           (''method'', cJSON_String ''tools/call''),
           (''params'', cJSON_Object [(''name'', cJSON_String ''led_control'')])])"
        _ _ "Some 1"]
  by (simp add: lookup_simps)

text \<open>
  Claim C7.  A message that does not parse is answered with the fixed error response whose
  \<open>id\<close> is null and whose error has code -32700 and message "Parse error"; and whenever a
  message that does parse is answered, the document has an \<open>id\<close> member that is not null.
\<close>

theorem parse_error_reply:
  \<open>(cJSON_Parse request = None \<longrightarrow>
      handle_mcp_request cJSON_Parse led_command_queue request MCP_BUFFER_SIZE =
        (Some ''{"jsonrpc":"2.0","id":null,"error":{"code":-32700,"message":"Parse error"}}'', []))
    \<and> (\<forall>json response.
          cJSON_Parse request = Some json
          \<and> fst (handle_mcp_request cJSON_Parse led_command_queue request MCP_BUFFER_SIZE)
              = Some response
          \<longrightarrow> (\<exists>id_value. cJSON_GetObjectItem json ''id'' = Some id_value
                \<and> id_value \<noteq> cJSON_NULL))\<close>
proof (intro conjI impI allI)
  assume "cJSON_Parse request = None"
  then show
    \<open>handle_mcp_request cJSON_Parse led_command_queue request MCP_BUFFER_SIZE =
      (Some ''{"jsonrpc":"2.0","id":null,"error":{"code":-32700,"message":"Parse error"}}'', [])\<close>
    by (rule request_unparsed)
next
  fix json response
  assume answered: "cJSON_Parse request = Some json
    \<and> fst (handle_mcp_request cJSON_Parse led_command_queue request MCP_BUFFER_SIZE)
        = Some response"
  show "\<exists>id_value. cJSON_GetObjectItem json ''id'' = Some id_value \<and> id_value \<noteq> cJSON_NULL"
  proof (rule ccontr)
    assume "\<not> ?thesis"
    then have "cJSON_GetObjectItem json ''id'' = None
        \<or> cJSON_GetObjectItem json ''id'' = Some cJSON_NULL"
      by (cases "cJSON_GetObjectItem json ''id''") auto
    with answered
    have "handle_mcp_request cJSON_Parse led_command_queue request MCP_BUFFER_SIZE = (None, [])"
      by (simp add: request_without_id)
    with answered show False
      by simp
  qed
qed

theorem parse_error_reply_witness:
  \<open>handle_mcp_request (\<lambda>text. None) None ''{'' MCP_BUFFER_SIZE =
      (Some ''{"jsonrpc":"2.0","id":null,"error":{"code":-32700,"message":"Parse error"}}'', [])
    \<and> fst (handle_mcp_request
          (\<lambda>text. Some (cJSON_Object [(''jsonrpc'', cJSON_String ''2.0''), (''id'', cJSON_Number 7),
             (''method'', cJSON_String ''ping'')]))
          None ''{"jsonrpc":"2.0","id":7,"method":"ping"}'' MCP_BUFFER_SIZE) =
        Some ''{"jsonrpc":"2.0","id":7,"error":{"code":-32601,"message":"Method not found"}}''
    \<and> (\<exists>id_value.
          cJSON_GetObjectItem
            (cJSON_Object [(''jsonrpc'', cJSON_String ''2.0''), (''id'', cJSON_Number 7),
               (''method'', cJSON_String ''ping'')]) ''id'' = Some id_value
          \<and> id_value \<noteq> cJSON_NULL)\<close>
proof -
  let ?doc = "cJSON_Object [(''jsonrpc'', cJSON_String ''2.0''), (''id'', cJSON_Number 7),
    (''method'', cJSON_String ''ping'')]"
  have unparsed:
    \<open>handle_mcp_request (\<lambda>text. None) None ''{'' MCP_BUFFER_SIZE =
      (Some ''{"jsonrpc":"2.0","id":null,"error":{"code":-32700,"message":"Parse error"}}'', [])\<close>
    using parse_error_reply [of "\<lambda>text. None" "''{''" None, THEN conjunct1]
    by simp
  have answered:
    \<open>fst (handle_mcp_request (\<lambda>text. Some ?doc) None ''{"jsonrpc":"2.0","id":7,"method":"ping"}''
        MCP_BUFFER_SIZE) =
      Some ''{"jsonrpc":"2.0","id":7,"error":{"code":-32601,"message":"Method not found"}}''\<close>
    by (simp add: handle_mcp_request_def lookup_simps format_simps INT_MAX_def INT_MIN_def
        trunc_toward_zero_def)
  have \<open>\<exists>id_value. cJSON_GetObjectItem ?doc ''id'' = Some id_value \<and> id_value \<noteq> cJSON_NULL\<close>
    using parse_error_reply [of "\<lambda>text. Some ?doc" \<open>''{"jsonrpc":"2.0","id":7,"method":"ping"}''\<close>
        None, THEN conjunct2, rule_format, of ?doc] answered
    by simp
  with unparsed answered show ?thesis
    by simp
qed

text \<open>
  Claim C8.  A parsed document without a \<open>method\<close> member, or whose \<open>method\<close> is not a
  string, produces nothing: no response and no LED command, with or without an \<open>id\<close>.
\<close>

theorem missing_method_dropped:
  \<open>cJSON_Parse request = Some json \<Longrightarrow>
   \<forall>valuestring. cJSON_GetObjectItem json ''method'' \<noteq> Some (cJSON_String valuestring) \<Longrightarrow>
   handle_mcp_request cJSON_Parse led_command_queue request MCP_BUFFER_SIZE = (None, [])\<close>
  by (rule request_without_method)

theorem missing_method_dropped_witness:
  \<open>cJSON_GetObjectItem (cJSON_Object [(''jsonrpc'', cJSON_String ''2.0''), (''id'', cJSON_Number 3),
       (''method'', cJSON_Number 5)]) ''method'' = Some (cJSON_Number 5)
    \<and> handle_mcp_request
        (\<lambda>text. Some (cJSON_Object [(''jsonrpc'', cJSON_String ''2.0''), (''id'', cJSON_Number 3),
           (''method'', cJSON_Number 5)]))
        (Some 1) ''{"jsonrpc":"2.0","id":3,"method":5}'' MCP_BUFFER_SIZE = (None, [])\<close>
proof -
  have not_string:
    "\<forall>valuestring.
       cJSON_GetObjectItem (cJSON_Object [(''jsonrpc'', cJSON_String ''2.0''), (''id'', cJSON_Number 3),
         (''method'', cJSON_Number 5)]) ''method'' \<noteq> Some (cJSON_String valuestring)"
    by (simp add: lookup_simps)
  then show ?thesis
    using missing_method_dropped
      [of "\<lambda>text. Some (cJSON_Object [(''jsonrpc'', cJSON_String ''2.0''), (''id'', cJSON_Number 3),
           (''method'', cJSON_Number 5)])" _ _ "Some 1"]
    by (simp add: lookup_simps)
qed

section \<open>Properties of tool invocation\<close>

text \<open>
  Claim C6.  \<open>handle_tools_call\<close> checks in this order: no \<open>params\<close> gives the error
  -32602; a \<open>name\<close> member that is absent or not a string gives the error -32602; a name
  that is none of the four tool names gives the error -32601 "Tool not found"; and each of
  the four names runs its handler on the \<open>arguments\<close> member.
\<close>

theorem tool_call_validation:
  \<open>(params = None \<longrightarrow>
      handle_tools_call led_command_queue params MCP_BUFFER_SIZE =
        (- 1, ''{"code":-32602,"message":"Invalid params"}'', []))
    \<and> (\<forall>p. params = Some p
          \<and> (\<forall>valuestring. cJSON_GetObjectItem p ''name'' \<noteq> Some (cJSON_String valuestring))
          \<longrightarrow> handle_tools_call led_command_queue params MCP_BUFFER_SIZE =
                (- 1, ''{"code":-32602,"message":"Missing tool name"}'', []))
    \<and> (\<forall>p name.
          params = Some p \<and> cJSON_GetObjectItem p ''name'' = Some (cJSON_String name)
          \<and> name \<notin> {''wifi_status'', ''led_control'', ''compute_add'', ''compute_multiply''}
          \<longrightarrow> handle_tools_call led_command_queue params MCP_BUFFER_SIZE =
                (- 1, ''{"code":-32601,"message":"Tool not found"}'', []))
    \<and> (\<forall>p name.
          params = Some p \<and> cJSON_GetObjectItem p ''name'' = Some (cJSON_String name)
          \<longrightarrow> (name = ''wifi_status'' \<longrightarrow>
                 handle_tools_call led_command_queue params MCP_BUFFER_SIZE =
                   handle_wifi_status (cJSON_GetObjectItem p ''arguments'') MCP_BUFFER_SIZE)
              \<and> (name = ''led_control'' \<longrightarrow>
                 handle_tools_call led_command_queue params MCP_BUFFER_SIZE =
                   handle_led_control led_command_queue (cJSON_GetObjectItem p ''arguments'')
                     MCP_BUFFER_SIZE)
              \<and> (name = ''compute_add'' \<longrightarrow>
                 handle_tools_call led_command_queue params MCP_BUFFER_SIZE =
                   handle_compute_add (cJSON_GetObjectItem p ''arguments'') MCP_BUFFER_SIZE)
              \<and> (name = ''compute_multiply'' \<longrightarrow>
                 handle_tools_call led_command_queue params MCP_BUFFER_SIZE =
                   handle_compute_multiply (cJSON_GetObjectItem p ''arguments'') MCP_BUFFER_SIZE))\<close>
proof (intro conjI allI impI)
  assume "params = None"
  then show \<open>handle_tools_call led_command_queue params MCP_BUFFER_SIZE =
        (- 1, ''{"code":-32602,"message":"Invalid params"}'', [])\<close>
    by (simp add: handle_tools_call_def Let_def snprintf_def MCP_BUFFER_SIZE_def)
next
  fix p
  assume "params = Some p
          \<and> (\<forall>valuestring. cJSON_GetObjectItem p ''name'' \<noteq> Some (cJSON_String valuestring))"
  then show \<open>handle_tools_call led_command_queue params MCP_BUFFER_SIZE =
                (- 1, ''{"code":-32602,"message":"Missing tool name"}'', [])\<close>
    by (simp add: handle_tools_call_def Let_def snprintf_def MCP_BUFFER_SIZE_def
        split: option.split cJSON.split)
next
  fix p name
  assume "params = Some p \<and> cJSON_GetObjectItem p ''name'' = Some (cJSON_String name)
          \<and> name \<notin> {''wifi_status'', ''led_control'', ''compute_add'', ''compute_multiply''}"
  then show \<open>handle_tools_call led_command_queue params MCP_BUFFER_SIZE =
                (- 1, ''{"code":-32601,"message":"Tool not found"}'', [])\<close>
    by (simp add: handle_tools_call_def Let_def snprintf_def MCP_BUFFER_SIZE_def)
qed (simp_all add: handle_tools_call_def Let_def)

theorem tool_call_validation_witness:
  \<open>handle_tools_call None None MCP_BUFFER_SIZE =
      (- 1, ''{"code":-32602,"message":"Invalid params"}'', [])
    \<and> handle_tools_call None (Some (cJSON_Object [(''name'', cJSON_Number 5)])) MCP_BUFFER_SIZE =
      (- 1, ''{"code":-32602,"message":"Missing tool name"}'', [])
    \<and> handle_tools_call None (Some (cJSON_Object [(''name'', cJSON_String ''reboot'')]))
        MCP_BUFFER_SIZE =
      (- 1, ''{"code":-32601,"message":"Tool not found"}'', [])
    \<and> handle_tools_call None
        (Some (cJSON_Object [(''name'', cJSON_String ''compute_add''),
           (''arguments'', cJSON_Object [(''a'', cJSON_Number 2)])])) MCP_BUFFER_SIZE =
      handle_compute_add (Some (cJSON_Object [(''a'', cJSON_Number 2)])) MCP_BUFFER_SIZE\<close>
proof -
  have absent: "cJSON_GetObjectItem (cJSON_Object [(''name'', cJSON_Number 5)]) ''name''
      = Some (cJSON_Number 5)"
    by (simp add: lookup_simps)
  have unknown: "cJSON_GetObjectItem (cJSON_Object [(''name'', cJSON_String ''reboot'')]) ''name''
      = Some (cJSON_String ''reboot'')"
    by (simp add: lookup_simps)
  have known: "cJSON_GetObjectItem (cJSON_Object [(''name'', cJSON_String ''compute_add''),
        (''arguments'', cJSON_Object [(''a'', cJSON_Number 2)])]) ''name''
      = Some (cJSON_String ''compute_add'')"
    "cJSON_GetObjectItem (cJSON_Object [(''name'', cJSON_String ''compute_add''),
        (''arguments'', cJSON_Object [(''a'', cJSON_Number 2)])]) ''arguments''
      = Some (cJSON_Object [(''a'', cJSON_Number 2)])"
    by (simp_all add: lookup_simps)
  show ?thesis
    using tool_call_validation [of None None, THEN conjunct1]
      tool_call_validation [of "Some (cJSON_Object [(''name'', cJSON_Number 5)])" None,
        THEN conjunct2, THEN conjunct1, rule_format,
        of "cJSON_Object [(''name'', cJSON_Number 5)]"]
      tool_call_validation [of "Some (cJSON_Object [(''name'', cJSON_String ''reboot'')])" None,
        THEN conjunct2, THEN conjunct2, THEN conjunct1, rule_format,
        of "cJSON_Object [(''name'', cJSON_String ''reboot'')]" "''reboot''"]
      tool_call_validation [of "Some (cJSON_Object [(''name'', cJSON_String ''compute_add''),
           (''arguments'', cJSON_Object [(''a'', cJSON_Number 2)])])" None,
        THEN conjunct2, THEN conjunct2, THEN conjunct2, rule_format,
        of "cJSON_Object [(''name'', cJSON_String ''compute_add''),
           (''arguments'', cJSON_Object [(''a'', cJSON_Number 2)])]" "''compute_add''",
        THEN conjunct2, THEN conjunct2, THEN conjunct1]
    by (simp add: absent unknown known)
qed









section \<open>The response envelope\<close>

text \<open>
  Claim C1.  The envelope prints the \<open>valueint\<close> field of the \<open>id\<close> item with \<open>%d\<close>.
  For a request whose id is the string "abc" the response carries the number 0.
\<close>

theorem string_id_echoed_as_zero:
  \<open>handle_mcp_request
     (\<lambda>text. Some (cJSON_Object [(''jsonrpc'', cJSON_String ''2.0''), (''id'', cJSON_String ''abc''),
        (''method'', cJSON_String ''initialize'')]))
     led_command_queue ''{"jsonrpc":"2.0","id":"abc","method":"initialize"}'' MCP_BUFFER_SIZE
   = (Some ''{"jsonrpc":"2.0","id":0,"result":{"protocolVersion":"2024-11-05","capabilities":{"tools":{"listChanged":false}},"serverInfo":{"name":"esp32-s3-mcp","version":"0.1.0"}}}'', [])\<close>
  by (simp add: handle_mcp_request_def lookup_simps handle_initialize_def init_response_def
      format_simps)

section \<open>Properties of LED control\<close>

lemma length_show_nat_small: "n < 1000 \<Longrightarrow> length (show_nat n) \<le> 3"
proof -
  assume n: "n < 1000"
  have one: "length (show_nat k) = 1" if "k < 10" for k
    using that by (simp add: show_nat.simps)
  have two: "length (show_nat k) \<le> 2" if "k < 100" for k
  proof (cases "k < 10")
    case True
    then show ?thesis
      using one by simp
  next
    case False
    with that have "k div 10 < 10"
      by simp
    with False show ?thesis
      using one [of "k div 10"] by (simp add: show_nat.simps [of k])
  qed
  show ?thesis
  proof (cases "n < 10")
    case True
    then show ?thesis
      using one by simp
  next
    case False
    with n have "n div 10 < 100"
      by simp
    with False show ?thesis
      using two [of "n div 10"] by (simp add: show_nat.simps [of n])
  qed
qed

lemma length_show_uint8: "length (show_int (uint (w :: 8 word))) \<le> 3"
proof -
  have "unat w < 2 ^ 8"
    using unsigned_less [of w, where ?'a = nat] by simp
  then have "unat w < 1000"
    by simp
  then show ?thesis
    by (simp add: show_int_def length_show_nat_small)
qed

lemma length_led_set_text:
  "length (led_set_text r g b brightness) \<le> 101" "0 < length (led_set_text r g b brightness)"
  using length_show_uint8 [of r] length_show_uint8 [of g] length_show_uint8 [of b]
    length_show_uint8 [of brightness]
  by (simp_all add: led_set_text_def)

lemma snprintf_led_set_text:
  "snprintf MCP_BUFFER_SIZE (led_set_text r g b brightness) = led_set_text r g b brightness"
  using length_led_set_text(1) [of r g b brightness]
  by (simp add: snprintf_def MCP_BUFFER_SIZE_def)

lemma trunc_clamped:
  "0 \<le> trunc_toward_zero (fmin 100 (fmax 0 d)) \<and> trunc_toward_zero (fmin 100 (fmax 0 d)) \<le> 100"
  by (auto simp: trunc_toward_zero_def fmin_def fmax_def floor_le_iff le_floor_iff)

lemma parse_brightness_le: "uint (parse_brightness item) \<le> 100"
proof (cases "\<exists>d. item = Some (cJSON_Number d)")
  case True
  then obtain d where item: "item = Some (cJSON_Number d)"
    by blast
  let ?t = "trunc_toward_zero (fmin 100 (fmax 0 d))"
  from trunc_clamped [of d] have "0 \<le> ?t" "?t \<le> 100"
    by simp_all
  then have "uint (word_of_int ?t :: 8 word) = ?t"
    by (simp add: uint_word_of_int take_bit_int_eq_self)
  with \<open>?t \<le> 100\<close> show ?thesis
    by (simp add: item parse_brightness_def uint8_of_double_def)
next
  case False
  then show ?thesis
    by (auto simp: parse_brightness_def split: option.split cJSON.split)
qed

lemma match_color_off: "match_color (Some (cJSON_String ''off'')) = Color_Off"
  by (simp add: match_color_def)

lemma match_color_named:
  "(name, r, g, b) \<in> set [(''red'', 255, 0, 0), (''green'', 0, 255, 0), (''blue'', 0, 0, 255),
       (''yellow'', 255, 255, 0), (''magenta'', 255, 0, 255), (''cyan'', 0, 255, 255),
       (''white'', 255, 255, 255)] \<Longrightarrow>
   match_color (Some (cJSON_String name)) = Color_Set r g b"
  by (simp, elim disjE conjE) (simp_all add: match_color_def)

lemma match_color_other:
  "\<forall>name. color = Some (cJSON_String name) \<longrightarrow>
     name \<notin> set [''red'', ''green'', ''blue'', ''yellow'', ''magenta'', ''cyan'', ''white'', ''off''] \<Longrightarrow>
   match_color color = Color_None"
  by (simp add: match_color_def split: option.split cJSON.split)

lemma led_control_off:
  \<open>match_color (cJSON_GetObjectItem args ''color'') = Color_Off \<Longrightarrow>
   handle_led_control led_command_queue (Some args) MCP_BUFFER_SIZE =
     (53, ''{"content":[{"type":"text","text":"LED turned off"}]}'',
      xQueueSend_if_created led_command_queue (led_cmd_zero\<lparr>cmd_type := LED_CMD_OFF\<rparr>)
        portMAX_DELAY)\<close>
  by (simp add: handle_led_control_def snprintf_def strlen_def MCP_BUFFER_SIZE_def)

lemma led_control_preset:
  \<open>match_color (cJSON_GetObjectItem args ''color'') = Color_Set r g b \<Longrightarrow>
   handle_led_control led_command_queue (Some args) MCP_BUFFER_SIZE =
     (strlen (led_set_text r g b (parse_brightness (cJSON_GetObjectItem args ''brightness''))),
      led_set_text r g b (parse_brightness (cJSON_GetObjectItem args ''brightness'')),
      xQueueSend_if_created led_command_queue
        \<lparr>cmd_type = LED_CMD_SET_COLOR, cmd_r = r, cmd_g = g, cmd_b = b,
         cmd_brightness = parse_brightness (cJSON_GetObjectItem args ''brightness'')\<rparr>
        portMAX_DELAY)\<close>
  by (simp add: handle_led_control_def Let_def snprintf_led_set_text led_cmd_zero_def)

lemma led_control_rgb:
  \<open>match_color (cJSON_GetObjectItem args ''color'') = Color_None \<Longrightarrow>
   handle_led_control led_command_queue (Some args) MCP_BUFFER_SIZE =
     (strlen (led_set_text (rgb_component (cJSON_GetObjectItem args ''r'') 255)
        (rgb_component (cJSON_GetObjectItem args ''g'') 255)
        (rgb_component (cJSON_GetObjectItem args ''b'') 255)
        (parse_brightness (cJSON_GetObjectItem args ''brightness''))),
      led_set_text (rgb_component (cJSON_GetObjectItem args ''r'') 255)
        (rgb_component (cJSON_GetObjectItem args ''g'') 255)
        (rgb_component (cJSON_GetObjectItem args ''b'') 255)
        (parse_brightness (cJSON_GetObjectItem args ''brightness'')),
      xQueueSend_if_created led_command_queue
        \<lparr>cmd_type = LED_CMD_SET_COLOR,
         cmd_r = rgb_component (cJSON_GetObjectItem args ''r'') 255,
         cmd_g = rgb_component (cJSON_GetObjectItem args ''g'') 255,
         cmd_b = rgb_component (cJSON_GetObjectItem args ''b'') 255,
         cmd_brightness = parse_brightness (cJSON_GetObjectItem args ''brightness'')\<rparr>
        portMAX_DELAY)\<close>
  by (simp add: handle_led_control_def Let_def snprintf_led_set_text led_cmd_zero_def)

lemma led_control_no_arguments:
  \<open>handle_led_control led_command_queue None MCP_BUFFER_SIZE =
     (- 1, ''{"code":-32602,"message":"LED control requires arguments"}'', [])\<close>
  by (simp add: handle_led_control_def snprintf_def MCP_BUFFER_SIZE_def)

lemma led_control_one_send:
  assumes "led_command_queue \<noteq> None"
  shows "0 < fst (handle_led_control led_command_queue (Some args) MCP_BUFFER_SIZE)
    \<and> length (snd (snd (handle_led_control led_command_queue (Some args) MCP_BUFFER_SIZE))) = 1"
proof (cases "match_color (cJSON_GetObjectItem args ''color'')")
  case (Color_Set r g b)
  then show ?thesis
    using assms length_led_set_text(2)
    by (simp add: led_control_preset xQueueSend_if_created_def strlen_def)
next
  case Color_Off
  then show ?thesis
    using assms by (simp add: led_control_off xQueueSend_if_created_def)
next
  case Color_None
  then show ?thesis
    using assms length_led_set_text(2)
    by (simp add: led_control_rgb xQueueSend_if_created_def strlen_def)
qed

text \<open>The server task never runs without the queue.\<close>

lemma server_task_has_queue:
  "mcp_server_task_running (app_main xQueueCreate_result led_task_created mcp_task_created) \<Longrightarrow>
   led_command_queue_handle (app_main xQueueCreate_result led_task_created mcp_task_created)
     \<noteq> None"
  by (simp add: app_main_def split: if_splits)

text \<open>
  Claim C3.  With arguments present and the queue created (as it is whenever the server
  task runs), \<open>handle_led_control\<close> resolves the colour in this order: \<open>color\<close> equal to
  "off" sends exactly one Off command and returns at once, whatever the other members are;
  one of the seven other colour names sends its fixed triple; otherwise each of \<open>r\<close>,
  \<open>g\<close>, \<open>b\<close> is taken from its member, 255 when the member is absent.  Every call with
  arguments succeeds and makes exactly one send, which waits as long as needed; a call
  without arguments fails and sends nothing.
\<close>

theorem led_control_resolution:
  \<open>led_command_queue \<noteq> None \<Longrightarrow>
   (cJSON_GetObjectItem args ''color'' = Some (cJSON_String ''off'') \<longrightarrow>
      handle_led_control led_command_queue (Some args) MCP_BUFFER_SIZE =
        (53, ''{"content":[{"type":"text","text":"LED turned off"}]}'',
         [(\<lparr>cmd_type = LED_CMD_OFF, cmd_r = 0, cmd_g = 0, cmd_b = 0, cmd_brightness = 0\<rparr>,
           portMAX_DELAY)]))
   \<and> (\<forall>name r g b.
         cJSON_GetObjectItem args ''color'' = Some (cJSON_String name)
         \<and> (name, r, g, b) \<in> set [(''red'', 255, 0, 0), (''green'', 0, 255, 0),
               (''blue'', 0, 0, 255), (''yellow'', 255, 255, 0), (''magenta'', 255, 0, 255),
               (''cyan'', 0, 255, 255), (''white'', 255, 255, 255)]
         \<longrightarrow> snd (snd (handle_led_control led_command_queue (Some args) MCP_BUFFER_SIZE)) =
               [(\<lparr>cmd_type = LED_CMD_SET_COLOR, cmd_r = r, cmd_g = g, cmd_b = b,
                  cmd_brightness = parse_brightness (cJSON_GetObjectItem args ''brightness'')\<rparr>,
                 portMAX_DELAY)])
   \<and> ((\<forall>name. cJSON_GetObjectItem args ''color'' = Some (cJSON_String name) \<longrightarrow>
           name \<notin> set [''red'', ''green'', ''blue'', ''yellow'', ''magenta'', ''cyan'', ''white'',
             ''off''])
        \<longrightarrow> snd (snd (handle_led_control led_command_queue (Some args) MCP_BUFFER_SIZE)) =
              [(\<lparr>cmd_type = LED_CMD_SET_COLOR,
                 cmd_r = rgb_component (cJSON_GetObjectItem args ''r'') 255,
                 cmd_g = rgb_component (cJSON_GetObjectItem args ''g'') 255,
                 cmd_b = rgb_component (cJSON_GetObjectItem args ''b'') 255,
                 cmd_brightness = parse_brightness (cJSON_GetObjectItem args ''brightness'')\<rparr>,
                portMAX_DELAY)])
   \<and> rgb_component None 255 = 255
   \<and> (\<forall>d. rgb_component (Some (cJSON_Number d)) 255 = uint8_of_double d)
   \<and> 0 < fst (handle_led_control led_command_queue (Some args) MCP_BUFFER_SIZE)
   \<and> length (snd (snd (handle_led_control led_command_queue (Some args) MCP_BUFFER_SIZE))) = 1
   \<and> handle_led_control led_command_queue None MCP_BUFFER_SIZE =
       (- 1, ''{"code":-32602,"message":"LED control requires arguments"}'', [])\<close>
proof -
  assume created: "led_command_queue \<noteq> None"
  have off: \<open>cJSON_GetObjectItem args ''color'' = Some (cJSON_String ''off'') \<longrightarrow>
      handle_led_control led_command_queue (Some args) MCP_BUFFER_SIZE =
        (53, ''{"content":[{"type":"text","text":"LED turned off"}]}'',
         [(\<lparr>cmd_type = LED_CMD_OFF, cmd_r = 0, cmd_g = 0, cmd_b = 0, cmd_brightness = 0\<rparr>,
           portMAX_DELAY)])\<close>
    using created
    by (simp add: led_control_off match_color_off xQueueSend_if_created_def led_cmd_zero_def)
  have named: \<open>\<forall>name r g b.
         cJSON_GetObjectItem args ''color'' = Some (cJSON_String name)
         \<and> (name, r, g, b) \<in> set [(''red'', 255, 0, 0), (''green'', 0, 255, 0),
               (''blue'', 0, 0, 255), (''yellow'', 255, 255, 0), (''magenta'', 255, 0, 255),
               (''cyan'', 0, 255, 255), (''white'', 255, 255, 255)]
         \<longrightarrow> snd (snd (handle_led_control led_command_queue (Some args) MCP_BUFFER_SIZE)) =
               [(\<lparr>cmd_type = LED_CMD_SET_COLOR, cmd_r = r, cmd_g = g, cmd_b = b,
                  cmd_brightness = parse_brightness (cJSON_GetObjectItem args ''brightness'')\<rparr>,
                 portMAX_DELAY)]\<close>
  proof (intro allI impI, elim conjE)
    fix name :: string and r g b :: "8 word"
    assume "cJSON_GetObjectItem args ''color'' = Some (cJSON_String name)"
      and "(name, r, g, b) \<in> set [(''red'', 255, 0, 0), (''green'', 0, 255, 0),
               (''blue'', 0, 0, 255), (''yellow'', 255, 255, 0), (''magenta'', 255, 0, 255),
               (''cyan'', 0, 255, 255), (''white'', 255, 255, 255)]"
    then have "match_color (cJSON_GetObjectItem args ''color'') = Color_Set r g b"
      using match_color_named [of name r g b] by simp
    then show "snd (snd (handle_led_control led_command_queue (Some args) MCP_BUFFER_SIZE)) =
               [(\<lparr>cmd_type = LED_CMD_SET_COLOR, cmd_r = r, cmd_g = g, cmd_b = b,
                  cmd_brightness = parse_brightness (cJSON_GetObjectItem args ''brightness'')\<rparr>,
                 portMAX_DELAY)]"
      using created by (simp add: led_control_preset xQueueSend_if_created_def)
  qed
  have other: \<open>(\<forall>name. cJSON_GetObjectItem args ''color'' = Some (cJSON_String name) \<longrightarrow>
           name \<notin> set [''red'', ''green'', ''blue'', ''yellow'', ''magenta'', ''cyan'', ''white'',
             ''off''])
        \<longrightarrow> snd (snd (handle_led_control led_command_queue (Some args) MCP_BUFFER_SIZE)) =
              [(\<lparr>cmd_type = LED_CMD_SET_COLOR,
                 cmd_r = rgb_component (cJSON_GetObjectItem args ''r'') 255,
                 cmd_g = rgb_component (cJSON_GetObjectItem args ''g'') 255,
                 cmd_b = rgb_component (cJSON_GetObjectItem args ''b'') 255,
                 cmd_brightness = parse_brightness (cJSON_GetObjectItem args ''brightness'')\<rparr>,
                portMAX_DELAY)]\<close>
  proof
    assume "\<forall>name. cJSON_GetObjectItem args ''color'' = Some (cJSON_String name) \<longrightarrow>
           name \<notin> set [''red'', ''green'', ''blue'', ''yellow'', ''magenta'', ''cyan'', ''white'',
             ''off'']"
    then have "match_color (cJSON_GetObjectItem args ''color'') = Color_None"
      by (rule match_color_other)
    then show "snd (snd (handle_led_control led_command_queue (Some args) MCP_BUFFER_SIZE)) =
              [(\<lparr>cmd_type = LED_CMD_SET_COLOR,
                 cmd_r = rgb_component (cJSON_GetObjectItem args ''r'') 255,
                 cmd_g = rgb_component (cJSON_GetObjectItem args ''g'') 255,
                 cmd_b = rgb_component (cJSON_GetObjectItem args ''b'') 255,
                 cmd_brightness = parse_brightness (cJSON_GetObjectItem args ''brightness'')\<rparr>,
                portMAX_DELAY)]"
      using created by (simp add: led_control_rgb xQueueSend_if_created_def)
  qed
  have components: "rgb_component None 255 = 255"
    "\<forall>d. rgb_component (Some (cJSON_Number d)) 255 = uint8_of_double d"
    by (simp_all add: rgb_component_def)
  from off named other components led_control_one_send [OF created, of args]
    led_control_no_arguments [of led_command_queue]
  show ?thesis
    by blast
qed

theorem led_control_resolution_witness:
  \<open>handle_led_control (Some 1)
      (Some (cJSON_Object [(''color'', cJSON_String ''off''), (''r'', cJSON_Number 10),
         (''g'', cJSON_Number 20), (''b'', cJSON_Number 30)])) MCP_BUFFER_SIZE =
      (53, ''{"content":[{"type":"text","text":"LED turned off"}]}'',
       [(\<lparr>cmd_type = LED_CMD_OFF, cmd_r = 0, cmd_g = 0, cmd_b = 0, cmd_brightness = 0\<rparr>,
         portMAX_DELAY)])
    \<and> snd (snd (handle_led_control (Some 1)
          (Some (cJSON_Object [(''color'', cJSON_String ''yellow''),
             (''brightness'', cJSON_Number 50)])) MCP_BUFFER_SIZE)) =
      [(\<lparr>cmd_type = LED_CMD_SET_COLOR, cmd_r = 255, cmd_g = 255, cmd_b = 0,
         cmd_brightness = 50\<rparr>, portMAX_DELAY)]
    \<and> snd (snd (handle_led_control (Some 1)
          (Some (cJSON_Object [(''r'', cJSON_Number 10), (''b'', cJSON_Number 30)]))
          MCP_BUFFER_SIZE)) =
      [(\<lparr>cmd_type = LED_CMD_SET_COLOR, cmd_r = 10, cmd_g = 255, cmd_b = 30,
         cmd_brightness = 20\<rparr>, portMAX_DELAY)]\<close>
proof -
  let ?off = "cJSON_Object [(''color'', cJSON_String ''off''), (''r'', cJSON_Number 10),
    (''g'', cJSON_Number 20), (''b'', cJSON_Number 30)]"
  let ?yellow = "cJSON_Object [(''color'', cJSON_String ''yellow''),
    (''brightness'', cJSON_Number 50)]"
  let ?rgb = "cJSON_Object [(''r'', cJSON_Number 10), (''b'', cJSON_Number 30)]"
  have off: "cJSON_GetObjectItem ?off ''color'' = Some (cJSON_String ''off'')"
    by (simp add: lookup_simps)
  have yellow: "cJSON_GetObjectItem ?yellow ''color'' = Some (cJSON_String ''yellow'')"
    "cJSON_GetObjectItem ?yellow ''brightness'' = Some (cJSON_Number 50)"
    by (simp_all add: lookup_simps)
  have rgb: "cJSON_GetObjectItem ?rgb ''color'' = None"
    "cJSON_GetObjectItem ?rgb ''r'' = Some (cJSON_Number 10)"
    "cJSON_GetObjectItem ?rgb ''g'' = None"
    "cJSON_GetObjectItem ?rgb ''b'' = Some (cJSON_Number 30)"
    "cJSON_GetObjectItem ?rgb ''brightness'' = None"
    by (simp_all add: lookup_simps)
  have first: \<open>handle_led_control (Some 1) (Some ?off) MCP_BUFFER_SIZE =
      (53, ''{"content":[{"type":"text","text":"LED turned off"}]}'',
       [(\<lparr>cmd_type = LED_CMD_OFF, cmd_r = 0, cmd_g = 0, cmd_b = 0, cmd_brightness = 0\<rparr>,
         portMAX_DELAY)])\<close>
    using led_control_resolution [of "Some 1" ?off, THEN conjunct1] off
    by simp
  have second: \<open>snd (snd (handle_led_control (Some 1) (Some ?yellow) MCP_BUFFER_SIZE)) =
      [(\<lparr>cmd_type = LED_CMD_SET_COLOR, cmd_r = 255, cmd_g = 255, cmd_b = 0,
         cmd_brightness = 50\<rparr>, portMAX_DELAY)]\<close>
    using led_control_resolution [of "Some 1" ?yellow, THEN conjunct2, THEN conjunct1,
        rule_format, of "''yellow''" 255 255 0] yellow
    by (simp add: number_simps)
  have third: \<open>snd (snd (handle_led_control (Some 1) (Some ?rgb) MCP_BUFFER_SIZE)) =
      [(\<lparr>cmd_type = LED_CMD_SET_COLOR, cmd_r = 10, cmd_g = 255, cmd_b = 30,
         cmd_brightness = 20\<rparr>, portMAX_DELAY)]\<close>
    using led_control_resolution [of "Some 1" ?rgb, THEN conjunct2, THEN conjunct2,
        THEN conjunct1] rgb
    by (simp add: number_simps)
  from first second third show ?thesis
    by simp
qed



section \<open>The commands that reach the queue\<close>

lemma led_control_sends_in_range:
  "\<forall>s \<in> set (snd (snd (handle_led_control led_command_queue arguments MCP_BUFFER_SIZE))).
     uint (cmd_brightness (fst s)) \<le> 100"
proof (cases arguments)
  case None
  then show ?thesis
    by (simp add: led_control_no_arguments)
next
  case (Some args)
  show ?thesis
  proof (cases "match_color (cJSON_GetObjectItem args ''color'')")
    case (Color_Set r g b)
    then show ?thesis
      using parse_brightness_le
      by (simp add: Some led_control_preset xQueueSend_if_created_def)
  next
    case Color_Off
    then show ?thesis
      by (simp add: Some led_control_off xQueueSend_if_created_def led_cmd_zero_def)
  next
    case Color_None
    then show ?thesis
      using parse_brightness_le
      by (simp add: Some led_control_rgb xQueueSend_if_created_def)
  qed
qed

lemma other_tools_send_nothing:
  "snd (snd (handle_wifi_status arguments n)) = []"
  "snd (snd (handle_compute_add arguments n)) = []"
  "snd (snd (handle_compute_multiply arguments n)) = []"
  by (simp_all add: handle_wifi_status_def handle_compute_add_def handle_compute_multiply_def
      Let_def split: option.split cJSON.split)

lemma tools_call_sends_in_range:
  "\<forall>s \<in> set (snd (snd (handle_tools_call led_command_queue params MCP_BUFFER_SIZE))).
     uint (cmd_brightness (fst s)) \<le> 100"
  using led_control_sends_in_range
  by (simp add: handle_tools_call_def Let_def other_tools_send_nothing
      split: option.split cJSON.split)

lemma request_sends_in_range:
  "\<forall>s \<in> set (snd (handle_mcp_request cJSON_Parse led_command_queue request response_size)).
     uint (cmd_brightness (fst s)) \<le> 100"
  unfolding handle_mcp_request_def Let_def
  by (simp add: handle_initialize_def handle_tools_list_def Let_def case_prod_beta
      tools_call_sends_in_range split: option.split cJSON.split)

lemma dispatch_line_led_sends:
  "led_sends (dispatch_line cJSON_Parse led_command_queue line st) =
     led_sends st @ snd (handle_mcp_request cJSON_Parse led_command_queue line MCP_BUFFER_SIZE)"
  by (simp add: dispatch_line_def Let_def case_prod_beta split: option.split)

lemma process_lines_led_sends_in_range:
  "\<forall>s \<in> set (led_sends st). uint (cmd_brightness (fst s)) \<le> 100 \<Longrightarrow>
   \<forall>s \<in> set (led_sends (process_lines cJSON_Parse led_command_queue line_start st)).
     uint (cmd_brightness (fst s)) \<le> 100"
proof (induction cJSON_Parse led_command_queue line_start st rule: process_lines.induct)
  case (1 cJSON_Parse led_command_queue line_start st)
  show ?case
  proof (cases "strchr_newline line_start")
    case None
    with "1.prems" show ?thesis
      by (simp add: process_lines.simps [of _ _ line_start])
  next
    case (Some found)
    obtain line rest where found: "found = (line, rest)"
      by (cases found)
    let ?st1 = "dispatch_line cJSON_Parse led_command_queue line st"
    have st1: "\<forall>s \<in> set (led_sends ?st1). uint (cmd_brightness (fst s)) \<le> 100"
      using "1.prems" request_sends_in_range [of cJSON_Parse led_command_queue line]
      by (auto simp: dispatch_line_led_sends)
    show ?thesis
    proof (cases "0 < length line")
      case True
      show ?thesis
      proof (cases "send_failed ?st1")
        case True
        with \<open>0 < length line\<close> st1 show ?thesis
          by (simp add: process_lines.simps [of _ _ line_start] Some found)
      next
        case False
        with \<open>0 < length line\<close> "1.IH"(1) [OF Some found [symmetric] _ refl _ st1]
        show ?thesis
          by (simp add: process_lines.simps [of _ _ line_start] Some found)
      qed
    next
      case False
      with "1.IH"(2) [OF Some found [symmetric] _ "1.prems"] show ?thesis
        by (simp add: process_lines.simps [of _ _ line_start] Some found)
    qed
  qed
qed

lemma connection_loop_led_sends_in_range:
  "\<forall>s \<in> set (led_sends st). uint (cmd_brightness (fst s)) \<le> 100 \<Longrightarrow>
   \<forall>s \<in> set (led_sends (connection_loop cJSON_Parse led_command_queue chunks st)).
     uint (cmd_brightness (fst s)) \<le> 100"
proof (induction chunks arbitrary: st)
  case Nil
  then show ?case
    by simp
next
  case (Cons rx_buffer chunks)
  let ?st1 = "process_lines cJSON_Parse led_command_queue
    (strncat (pending_data st) rx_buffer (MCP_BUFFER_SIZE - length (pending_data st) - 1)) st"
  have "\<forall>s \<in> set (led_sends ?st1). uint (cmd_brightness (fst s)) \<le> 100"
    using Cons.prems by (rule process_lines_led_sends_in_range)
  with Cons.IH [of ?st1] Cons.prems show ?case
    by (simp add: Let_def)
qed

lemma client_session_in_range:
  "\<forall>s \<in> set (client_session cJSON_Parse led_command_queue client).
     uint (cmd_brightness (fst s)) \<le> 100"
proof -
  have "\<forall>s \<in> set (led_sends
      (handle_mcp_connection cJSON_Parse led_command_queue (fst client) (snd client))).
        uint (cmd_brightness (fst s)) \<le> 100"
    unfolding handle_mcp_connection_def
    by (rule connection_loop_led_sends_in_range) simp
  then show ?thesis
    by (auto simp: client_session_def Let_def xQueueSend_if_created_def)
qed

lemma led_control_red_150:
  \<open>handle_led_control (Some 1)
     (Some (cJSON_Object [(''color'', cJSON_String ''red''), (''brightness'', cJSON_Number 150)]))
     MCP_BUFFER_SIZE =
   (85, ''{"content":[{"type":"text","text":"LED set to RGB(255, 0, 0) with 100% brightness"}]}'',
    [(\<lparr>cmd_type = LED_CMD_SET_COLOR, cmd_r = 255, cmd_g = 0, cmd_b = 0, cmd_brightness = 100\<rparr>,
      portMAX_DELAY)])\<close>
proof -
  let ?args = "cJSON_Object [(''color'', cJSON_String ''red''), (''brightness'', cJSON_Number 150)]"
  have members: "cJSON_GetObjectItem ?args ''color'' = Some (cJSON_String ''red'')"
    "cJSON_GetObjectItem ?args ''brightness'' = Some (cJSON_Number 150)"
    by (simp_all add: lookup_simps)
  have red: "match_color (cJSON_GetObjectItem ?args ''color'') = Color_Set 255 0 0"
    by (simp add: members match_color_def)
  have clamped: "parse_brightness (Some (cJSON_Number 150)) = 100"
    by (simp add: number_simps)
  show ?thesis
    by (subst led_control_preset [OF red])
      (simp add: members clamped led_set_text_def xQueueSend_if_created_def format_simps)
qed

lemma led_control_set_color_brightness:
  assumes "s \<in> set (snd (snd (handle_led_control led_command_queue (Some args) MCP_BUFFER_SIZE)))"
    and "cmd_type (fst s) = LED_CMD_SET_COLOR"
  shows "cmd_brightness (fst s) = parse_brightness (cJSON_GetObjectItem args ''brightness'')"
proof (cases "match_color (cJSON_GetObjectItem args ''color'')")
  case (Color_Set r g b)
  with assms(1) show ?thesis
    by (auto simp: led_control_preset xQueueSend_if_created_def split: if_splits)
next
  case Color_Off
  with assms show ?thesis
    by (auto simp: led_control_off xQueueSend_if_created_def split: if_splits)
next
  case Color_None
  with assms(1) show ?thesis
    by (auto simp: led_control_rgb xQueueSend_if_created_def split: if_splits)
qed

lemma parse_brightness_clamps:
  "uint (parse_brightness (Some (cJSON_Number d))) =
     (if d \<le> 0 then 0 else if 100 \<le> d then 100 else \<lfloor>d\<rfloor>)"
proof -
  let ?t = "trunc_toward_zero (fmin 100 (fmax 0 d))"
  from trunc_clamped [of d] have "0 \<le> ?t" "?t \<le> 100"
    by simp_all
  then have "uint (word_of_int ?t :: 8 word) = ?t"
    by (simp add: uint_word_of_int take_bit_int_eq_self)
  moreover have "?t = (if d \<le> 0 then 0 else if 100 \<le> d then 100 else \<lfloor>d\<rfloor>)"
    by (auto simp: trunc_toward_zero_def fmin_def fmax_def)
  ultimately show ?thesis
    by (simp add: parse_brightness_def uint8_of_double_def)
qed

text \<open>
  Claim C4.  Every command the server task sends to the queue, for the connection
  lifecycle or from a tool call, has a brightness between 0 and 100; a colour command of
  \<open>led_control\<close> has brightness 20 when no \<open>brightness\<close> member is given, and the
  supplied number clamped to 0..100 otherwise; and \<open>led_control\<close> with colour red and
  brightness 150 sends exactly one command (255, 0, 0, 100) and reports 100%.
\<close>

theorem led_brightness_in_range:
  \<open>(\<forall>s \<in> set (mcp_server_task cJSON_Parse led_command_queue listening clients).
       uint (cmd_brightness (fst s)) \<le> 100)
    \<and> (\<forall>s \<in> set (snd (snd (handle_led_control led_command_queue arguments MCP_BUFFER_SIZE))).
         uint (cmd_brightness (fst s)) \<le> 100)
    \<and> (\<forall>args s.
          s \<in> set (snd (snd (handle_led_control led_command_queue (Some args) MCP_BUFFER_SIZE)))
          \<and> cmd_type (fst s) = LED_CMD_SET_COLOR
          \<and> cJSON_GetObjectItem args ''brightness'' = None
          \<longrightarrow> cmd_brightness (fst s) = 20)
    \<and> (\<forall>args s d.
          s \<in> set (snd (snd (handle_led_control led_command_queue (Some args) MCP_BUFFER_SIZE)))
          \<and> cmd_type (fst s) = LED_CMD_SET_COLOR
          \<and> cJSON_GetObjectItem args ''brightness'' = Some (cJSON_Number d)
          \<longrightarrow> uint (cmd_brightness (fst s)) =
                (if d \<le> 0 then 0 else if 100 \<le> d then 100 else \<lfloor>d\<rfloor>))
    \<and> handle_led_control (Some 1)
        (Some (cJSON_Object [(''color'', cJSON_String ''red''), (''brightness'', cJSON_Number 150)]))
        MCP_BUFFER_SIZE =
      (85, ''{"content":[{"type":"text","text":"LED set to RGB(255, 0, 0) with 100% brightness"}]}'',
       [(\<lparr>cmd_type = LED_CMD_SET_COLOR, cmd_r = 255, cmd_g = 0, cmd_b = 0,
          cmd_brightness = 100\<rparr>, portMAX_DELAY)])\<close>
proof -
  have task: "\<forall>s \<in> set (mcp_server_task cJSON_Parse led_command_queue listening clients).
      uint (cmd_brightness (fst s)) \<le> 100"
    using client_session_in_range [of cJSON_Parse led_command_queue]
    by (fastforce simp: mcp_server_task_def)
  have dflt: "\<forall>args s.
      s \<in> set (snd (snd (handle_led_control led_command_queue (Some args) MCP_BUFFER_SIZE)))
      \<and> cmd_type (fst s) = LED_CMD_SET_COLOR
      \<and> cJSON_GetObjectItem args ''brightness'' = None
      \<longrightarrow> cmd_brightness (fst s) = 20"
  proof (intro allI impI, elim conjE)
    fix args s
    assume mem: "s \<in> set (snd (snd (handle_led_control led_command_queue (Some args)
        MCP_BUFFER_SIZE)))"
      and colour: "cmd_type (fst s) = LED_CMD_SET_COLOR"
      and absent: "cJSON_GetObjectItem args ''brightness'' = None"
    from mem colour have "cmd_brightness (fst s) =
        parse_brightness (cJSON_GetObjectItem args ''brightness'')"
      by (rule led_control_set_color_brightness)
    then show "cmd_brightness (fst s) = 20"
      by (simp add: absent parse_brightness_def)
  qed
  have clamp: "\<forall>args s d.
      s \<in> set (snd (snd (handle_led_control led_command_queue (Some args) MCP_BUFFER_SIZE)))
      \<and> cmd_type (fst s) = LED_CMD_SET_COLOR
      \<and> cJSON_GetObjectItem args ''brightness'' = Some (cJSON_Number d)
      \<longrightarrow> uint (cmd_brightness (fst s)) =
            (if d \<le> 0 then 0 else if 100 \<le> d then 100 else \<lfloor>d\<rfloor>)"
  proof (intro allI impI, elim conjE)
    fix args s d
    assume mem: "s \<in> set (snd (snd (handle_led_control led_command_queue (Some args)
        MCP_BUFFER_SIZE)))"
      and colour: "cmd_type (fst s) = LED_CMD_SET_COLOR"
      and given: "cJSON_GetObjectItem args ''brightness'' = Some (cJSON_Number d)"
    from mem colour have "cmd_brightness (fst s) =
        parse_brightness (cJSON_GetObjectItem args ''brightness'')"
      by (rule led_control_set_color_brightness)
    then show "uint (cmd_brightness (fst s)) =
        (if d \<le> 0 then 0 else if 100 \<le> d then 100 else \<lfloor>d\<rfloor>)"
      by (simp only: given parse_brightness_clamps)
  qed
  from task led_control_sends_in_range [of led_command_queue arguments] dflt clamp
    led_control_red_150
  show ?thesis
    by blast
qed

theorem led_brightness_in_range_witness:
  \<open>mcp_server_task (\<lambda>text. None) (Some 1) True [([], [])] =
      [(\<lparr>cmd_type = LED_CMD_SET_COLOR, cmd_r = 0, cmd_g = 255, cmd_b = 0, cmd_brightness = 20\<rparr>, 0),
       (\<lparr>cmd_type = LED_CMD_SET_COLOR, cmd_r = 0, cmd_g = 0, cmd_b = 255, cmd_brightness = 20\<rparr>, 0)]
    \<and> uint (cmd_brightness (fst (hd (mcp_server_task (\<lambda>text. None) (Some 1) True [([], [])]))))
        \<le> 100
    \<and> snd (snd (handle_led_control (Some 1)
          (Some (cJSON_Object [(''brightness'', cJSON_Number (- 5))])) MCP_BUFFER_SIZE)) =
      [(\<lparr>cmd_type = LED_CMD_SET_COLOR, cmd_r = 255, cmd_g = 255, cmd_b = 255,
         cmd_brightness = 0\<rparr>, portMAX_DELAY)]
    \<and> uint (cmd_brightness (fst (hd (snd (snd (handle_led_control (Some 1)
          (Some (cJSON_Object [(''brightness'', cJSON_Number (- 5))])) MCP_BUFFER_SIZE))))))
        \<le> 100\<close>
proof -
  let ?args = "cJSON_Object [(''brightness'', cJSON_Number (- 5))]"
  have task: "mcp_server_task (\<lambda>text. None) (Some 1) True [([], [])] =
      [(\<lparr>cmd_type = LED_CMD_SET_COLOR, cmd_r = 0, cmd_g = 255, cmd_b = 0, cmd_brightness = 20\<rparr>, 0),
       (\<lparr>cmd_type = LED_CMD_SET_COLOR, cmd_r = 0, cmd_g = 0, cmd_b = 255, cmd_brightness = 20\<rparr>, 0)]"
    by (simp add: mcp_server_task_def client_session_def handle_mcp_connection_def
        xQueueSend_if_created_def)
  have members: "cJSON_GetObjectItem ?args ''color'' = None"
    "cJSON_GetObjectItem ?args ''r'' = None"
    "cJSON_GetObjectItem ?args ''g'' = None"
    "cJSON_GetObjectItem ?args ''b'' = None"
    "cJSON_GetObjectItem ?args ''brightness'' = Some (cJSON_Number (- 5))"
    by (simp_all add: lookup_simps)
  have none: "match_color (cJSON_GetObjectItem ?args ''color'') = Color_None"
    by (simp add: members match_color_def)
  have call: "snd (snd (handle_led_control (Some 1) (Some ?args) MCP_BUFFER_SIZE)) =
      [(\<lparr>cmd_type = LED_CMD_SET_COLOR, cmd_r = 255, cmd_g = 255, cmd_b = 255,
         cmd_brightness = 0\<rparr>, portMAX_DELAY)]"
    by (subst led_control_rgb [OF none])
      (simp add: members number_simps xQueueSend_if_created_def)
  from task call show ?thesis
    using led_brightness_in_range
      [of "\<lambda>text. None" "Some 1" True "[([], [])]" "Some ?args"]
    by simp
qed

section \<open>Properties of the stream framer\<close>

lemma split_lines_no_newline: "newline \<notin> set s \<Longrightarrow> split_lines cur s = ([], cur @ s)"
  by (induction s arbitrary: cur) auto

lemma split_lines_at_newline:
  "newline \<notin> set a \<Longrightarrow>
   split_lines cur (a @ newline # b) =
     ((cur @ a) # fst (split_lines [] b), snd (split_lines [] b))"
  by (induction a arbitrary: cur) (auto simp: case_prod_beta)

lemma split_lines_append:
  "split_lines cur (a @ b) =
     (fst (split_lines cur a) @ fst (split_lines (snd (split_lines cur a)) b),
      snd (split_lines (snd (split_lines cur a)) b))"
  by (induction a arbitrary: cur) (simp_all add: case_prod_beta)

lemma split_lines_remainder_no_newline:
  "newline \<notin> set cur \<Longrightarrow> newline \<notin> set (snd (split_lines cur s))"
  by (induction s arbitrary: cur) (simp_all add: case_prod_beta)

lemma split_lines_prefix:
  "newline \<notin> set cur \<Longrightarrow> split_lines [] (cur @ s) = split_lines cur s"
  by (simp add: split_lines_append [of "[]" cur s] split_lines_no_newline)

lemma stream_remainder_no_newline: "newline \<notin> set (stream_remainder s)"
  by (simp add: stream_remainder_def split_lines_remainder_no_newline)

lemma stream_messages_append:
  "stream_messages (a @ b) = stream_messages a @ stream_messages (stream_remainder a @ b)"
  using split_lines_prefix [OF stream_remainder_no_newline, of a b]
  by (simp add: stream_messages_def stream_remainder_def split_lines_append [of "[]" a b])

lemma stream_remainder_append:
  "stream_remainder (a @ b) = stream_remainder (stream_remainder a @ b)"
  using split_lines_prefix [OF stream_remainder_no_newline, of a b]
  by (simp add: stream_remainder_def split_lines_append [of "[]" a b])

lemma strchr_newline_None: "strchr_newline s = None \<Longrightarrow> newline \<notin> set s"
  by (simp add: strchr_newline_def split: if_splits)

lemma strchr_newline_Some:
  assumes "strchr_newline s = Some (line, rest)"
  shows "s = line @ newline # rest \<and> newline \<notin> set line"
proof -
  from assms have mem: "newline \<in> set s"
    and line: "line = takeWhile (\<lambda>c. c \<noteq> newline) s"
    and rest: "rest = tl (dropWhile (\<lambda>c. c \<noteq> newline) s)"
    by (auto simp: strchr_newline_def split: if_splits)
  from mem have "dropWhile (\<lambda>c. c \<noteq> newline) s \<noteq> []"
    by simp
  moreover from this have "hd (dropWhile (\<lambda>c. c \<noteq> newline) s) = newline"
    using hd_dropWhile [of "\<lambda>c. c \<noteq> newline" s] by simp
  ultimately have "dropWhile (\<lambda>c. c \<noteq> newline) s = newline # rest"
    using rest by (cases "dropWhile (\<lambda>c. c \<noteq> newline) s") simp_all
  then have "s = line @ newline # rest"
    using takeWhile_dropWhile_id [of "\<lambda>c. c \<noteq> newline" s] line by simp
  moreover have "newline \<notin> set line"
    using line by (auto dest: set_takeWhileD)
  ultimately show ?thesis
    by simp
qed

lemma stream_no_newline:
  "newline \<notin> set s \<Longrightarrow> stream_messages s = [] \<and> stream_remainder s = s"
  by (simp add: stream_messages_def stream_remainder_def split_lines_no_newline)

lemma stream_at_newline:
  "newline \<notin> set line \<Longrightarrow>
   stream_messages (line @ newline # rest) =
     (if line = [] then stream_messages rest else line # stream_messages rest)
   \<and> stream_remainder (line @ newline # rest) = stream_remainder rest"
  by (simp add: stream_messages_def stream_remainder_def split_lines_at_newline)

lemma dispatch_line_dispatched:
  "dispatched (dispatch_line cJSON_Parse led_command_queue line st) = dispatched st @ [line]"
  by (simp add: dispatch_line_def Let_def case_prod_beta split: option.split)

lemma process_lines_frames:
  "\<not> send_failed (process_lines cJSON_Parse led_command_queue line_start st) \<Longrightarrow>
   dispatched (process_lines cJSON_Parse led_command_queue line_start st) =
     dispatched st @ stream_messages line_start
   \<and> pending_data (process_lines cJSON_Parse led_command_queue line_start st) =
     stream_remainder line_start"
proof (induction cJSON_Parse led_command_queue line_start st rule: process_lines.induct)
  case (1 cJSON_Parse led_command_queue line_start st)
  show ?case
  proof (cases "strchr_newline line_start")
    case None
    then show ?thesis
      using stream_no_newline [OF strchr_newline_None [OF None]]
      by (simp add: process_lines.simps [of _ _ line_start])
  next
    case (Some found)
    obtain line rest where found: "found = (line, rest)"
      by (cases found)
    from Some found have split: "line_start = line @ newline # rest" "newline \<notin> set line"
      using strchr_newline_Some [of line_start line rest] by simp_all
    let ?st1 = "dispatch_line cJSON_Parse led_command_queue line st"
    show ?thesis
    proof (cases "0 < length line")
      case True
      with "1.prems" have alive: "\<not> send_failed ?st1"
        and rest_alive: "\<not> send_failed (process_lines cJSON_Parse led_command_queue rest ?st1)"
        by (auto simp: process_lines.simps [of _ _ line_start] Some found Let_def
            split: if_splits)
      have step: "process_lines cJSON_Parse led_command_queue line_start st =
          process_lines cJSON_Parse led_command_queue rest ?st1"
        using True alive by (simp add: process_lines.simps [of _ _ line_start] Some found)
      have stream: "stream_messages line_start = line # stream_messages rest"
        "stream_remainder line_start = stream_remainder rest"
        using True stream_at_newline [OF split(2), of rest] by (simp_all add: split(1))
      from "1.IH"(1) [OF Some found [symmetric] True refl alive rest_alive]
      show ?thesis
        by (simp add: step stream dispatch_line_dispatched)
    next
      case False
      with "1.prems"
      have rest_alive: "\<not> send_failed (process_lines cJSON_Parse led_command_queue rest st)"
        by (simp add: process_lines.simps [of _ _ line_start] Some found)
      have step: "process_lines cJSON_Parse led_command_queue line_start st =
          process_lines cJSON_Parse led_command_queue rest st"
        using False by (simp add: process_lines.simps [of _ _ line_start] Some found)
      have stream: "stream_messages line_start = stream_messages rest"
        "stream_remainder line_start = stream_remainder rest"
        using False stream_at_newline [OF split(2), of rest] by (simp_all add: split(1))
      from "1.IH"(2) [OF Some found [symmetric] False rest_alive]
      show ?thesis
        by (simp add: step stream)
    qed
  qed
qed

lemma strncat_fits:
  "NUL \<notin> set chunk \<Longrightarrow> length pending + length chunk \<le> MCP_BUFFER_SIZE - 1 \<Longrightarrow>
   strncat pending chunk (MCP_BUFFER_SIZE - length pending - 1) = pending @ chunk"
proof -
  assume "NUL \<notin> set chunk"
  then have whole: "takeWhile (\<lambda>c. c \<noteq> NUL) chunk = chunk"
    by (auto simp: takeWhile_eq_all_conv)
  assume "length pending + length chunk \<le> MCP_BUFFER_SIZE - 1"
  then have room: "take (MCP_BUFFER_SIZE - length pending - 1) chunk = chunk"
    by simp
  show ?thesis
    unfolding strncat_def c_str_def whole room ..
qed

lemma connection_loop_frames:
  "newline \<notin> set (pending_data st) \<Longrightarrow>
   chunks_fit (pending_data st) chunks \<Longrightarrow>
   \<not> send_failed (connection_loop cJSON_Parse led_command_queue chunks st) \<Longrightarrow>
   dispatched (connection_loop cJSON_Parse led_command_queue chunks st) =
     dispatched st @ stream_messages (pending_data st @ concat chunks)
   \<and> pending_data (connection_loop cJSON_Parse led_command_queue chunks st) =
     stream_remainder (pending_data st @ concat chunks)"
proof (induction chunks arbitrary: st)
  case Nil
  then show ?case
    by (simp add: stream_no_newline)
next
  case (Cons chunk chunks)
  let ?pending = "pending_data st @ chunk"
  let ?st1 = "process_lines cJSON_Parse led_command_queue ?pending st"
  from Cons.prems(2) have fits: "chunk \<noteq> []" "NUL \<notin> set chunk"
    "length (pending_data st) + length chunk \<le> MCP_BUFFER_SIZE - 1"
    "chunks_fit (stream_remainder ?pending) chunks"
    by simp_all
  have step: "connection_loop cJSON_Parse led_command_queue (chunk # chunks) st =
      (if send_failed ?st1 then ?st1
       else connection_loop cJSON_Parse led_command_queue chunks ?st1)"
    using fits(1) strncat_fits [OF fits(2,3)] by (simp add: Let_def)
  from Cons.prems(3) [unfolded step] have alive: "\<not> send_failed ?st1"
    and rest_alive: "\<not> send_failed (connection_loop cJSON_Parse led_command_queue chunks ?st1)"
    by (auto split: if_splits)
  from process_lines_frames [OF alive]
  have st1: "dispatched ?st1 = dispatched st @ stream_messages ?pending"
    "pending_data ?st1 = stream_remainder ?pending"
    by simp_all
  from Cons.IH [of ?st1] fits(4) rest_alive st1(2) stream_remainder_no_newline [of ?pending]
  have "dispatched (connection_loop cJSON_Parse led_command_queue chunks ?st1) =
      dispatched ?st1 @ stream_messages (pending_data ?st1 @ concat chunks)
    \<and> pending_data (connection_loop cJSON_Parse led_command_queue chunks ?st1) =
      stream_remainder (pending_data ?st1 @ concat chunks)"
    by simp
  then show ?case
    unfolding step
    using alive stream_messages_append [of ?pending "concat chunks"]
      stream_remainder_append [of ?pending "concat chunks"]
    by (simp add: st1)
qed

lemma dispatch_unparsed:
  assumes "cJSON_Parse line = None" and "send_results st = 76 # rest"
  shows \<open>dispatch_line cJSON_Parse led_command_queue line st =
    st\<lparr>dispatched := dispatched st @ [line],
       written := written st
         @ ''{"jsonrpc":"2.0","id":null,"error":{"code":-32700,"message":"Parse error"}}''
         @ [newline],
       send_results := rest\<rparr>\<close>
proof -
  have sent: \<open>send_loop
      (''{"jsonrpc":"2.0","id":null,"error":{"code":-32700,"message":"Parse error"}}'' @ [newline])
      76 76 (76 # rest) =
    (True, ''{"jsonrpc":"2.0","id":null,"error":{"code":-32700,"message":"Parse error"}}''
       @ [newline], rest)\<close>
    by (simp add: send_loop.simps [of _ _ 76] send_loop.simps [of _ _ 0])
  show ?thesis
    unfolding dispatch_line_def request_unparsed [of cJSON_Parse line, OF assms(1)]
    using assms(2) sent
    by (simp add: Let_def strlen_def MCP_BUFFER_SIZE_def)
qed

text \<open>
  Claim C5, as amended.  Provided that no chunk is empty or contains a NUL byte, that each
  chunk is no longer than the room left in the pending buffer by the bytes retained before
  it, and that no send fails, the connection dispatches exactly the non-empty
  newline-delimited messages of the byte stream in arrival order, and retains the bytes
  after the last newline, which precede the next chunk.  Two messages in one read are
  dispatched in order, a message split over two reads is dispatched once, and an empty
  line is not dispatched.
\<close>

theorem framer_dispatches_messages:
  \<open>(chunks_fit [] chunks
      \<and> \<not> send_failed (handle_mcp_connection cJSON_Parse led_command_queue chunks results)
      \<longrightarrow> dispatched (handle_mcp_connection cJSON_Parse led_command_queue chunks results) =
            stream_messages (concat chunks)
          \<and> pending_data (handle_mcp_connection cJSON_Parse led_command_queue chunks results) =
            stream_remainder (concat chunks))
    \<and> (newline \<notin> set (pending_data st) \<and> chunks_fit (pending_data st) [chunk]
        \<and> \<not> send_failed (connection_loop cJSON_Parse led_command_queue [chunk] st)
        \<longrightarrow> dispatched (connection_loop cJSON_Parse led_command_queue [chunk] st) =
              dispatched st @ stream_messages (pending_data st @ chunk)
            \<and> pending_data (connection_loop cJSON_Parse led_command_queue [chunk] st) =
              stream_remainder (pending_data st @ chunk))
    \<and> (m1 \<noteq> [] \<and> m2 \<noteq> [] \<and> newline \<notin> set m1 \<and> newline \<notin> set m2
        \<longrightarrow> stream_messages (concat [m1 @ [newline] @ m2 @ [newline]]) = [m1, m2])
    \<and> (m1 \<noteq> [] \<and> newline \<notin> set m1 \<and> newline \<notin> set m2
        \<longrightarrow> stream_messages (concat [m1, m2 @ [newline]]) = [m1 @ m2])
    \<and> stream_messages (newline # s) = stream_messages s
    \<and> (newline \<notin> set s \<longrightarrow> stream_messages s = [] \<and> stream_remainder s = s)\<close>
proof (intro conjI impI)
  assume a: "chunks_fit [] chunks
      \<and> \<not> send_failed (handle_mcp_connection cJSON_Parse led_command_queue chunks results)"
  then have "dispatched (handle_mcp_connection cJSON_Parse led_command_queue chunks results) =
            stream_messages (concat chunks)
          \<and> pending_data (handle_mcp_connection cJSON_Parse led_command_queue chunks results) =
            stream_remainder (concat chunks)"
    unfolding handle_mcp_connection_def
    using connection_loop_frames
      [of "\<lparr>pending_data = [], send_results = results, dispatched = [], written = [],
           led_sends = [], send_failed = False\<rparr>" chunks cJSON_Parse led_command_queue]
    by simp
  then show "dispatched (handle_mcp_connection cJSON_Parse led_command_queue chunks results) =
            stream_messages (concat chunks)"
    and "pending_data (handle_mcp_connection cJSON_Parse led_command_queue chunks results) =
            stream_remainder (concat chunks)"
    by simp_all
next
  assume b: "newline \<notin> set (pending_data st) \<and> chunks_fit (pending_data st) [chunk]
        \<and> \<not> send_failed (connection_loop cJSON_Parse led_command_queue [chunk] st)"
  then have b1: "newline \<notin> set (pending_data st)"
    and b2: "chunks_fit (pending_data st) [chunk]"
    and b3: "\<not> send_failed (connection_loop cJSON_Parse led_command_queue [chunk] st)"
    by blast+
  from connection_loop_frames [OF b1 b2 b3]
  show "dispatched (connection_loop cJSON_Parse led_command_queue [chunk] st) =
              dispatched st @ stream_messages (pending_data st @ chunk)"
    and "pending_data (connection_loop cJSON_Parse led_command_queue [chunk] st) =
              stream_remainder (pending_data st @ chunk)"
    by simp_all
next
  assume "m1 \<noteq> [] \<and> m2 \<noteq> [] \<and> newline \<notin> set m1 \<and> newline \<notin> set m2"
  then show "stream_messages (concat [m1 @ [newline] @ m2 @ [newline]]) = [m1, m2]"
    using stream_at_newline [of m1 "m2 @ [newline]"] stream_at_newline [of m2 "[]"]
      stream_no_newline [of "[]"]
    by simp
next
  assume "m1 \<noteq> [] \<and> newline \<notin> set m1 \<and> newline \<notin> set m2"
  then show "stream_messages (concat [m1, m2 @ [newline]]) = [m1 @ m2]"
    using stream_at_newline [of "m1 @ m2" "[]"] stream_no_newline [of "[]"]
    by simp
next
  show "stream_messages (newline # s) = stream_messages s"
    using stream_at_newline [of "[]" s] by simp
next
  assume "newline \<notin> set s"
  then show "stream_messages s = []" and "stream_remainder s = s"
    by (simp_all add: stream_no_newline)
qed

lemma dispatch_nothing_parsed:
  \<open>dispatch_line parse_nothing led_command_queue line
     \<lparr>pending_data = p, send_results = 76 # rest, dispatched = d, written = w, led_sends = l,
      send_failed = f\<rparr> =
   \<lparr>pending_data = p, send_results = rest, dispatched = d @ [line],
    written = w @ ''{"jsonrpc":"2.0","id":null,"error":{"code":-32700,"message":"Parse error"}}''
      @ [newline],
    led_sends = l, send_failed = f\<rparr>\<close>
  by (subst dispatch_unparsed [where rest = rest]) (simp_all add: parse_nothing_def)

theorem framer_dispatches_messages_witness:
  \<open>dispatched (handle_mcp_connection parse_nothing None
       [''ab'' @ [newline] @ ''cd'' @ [newline] @ ''e'', ''f'' @ [newline] @ [newline]]
       [76, 76, 76]) = [''ab'', ''cd'', ''ef'']
    \<and> pending_data (handle_mcp_connection parse_nothing None
       [''ab'' @ [newline] @ ''cd'' @ [newline] @ ''e'', ''f'' @ [newline] @ [newline]]
       [76, 76, 76]) = []
    \<and> stream_messages (concat [''ab'' @ [newline] @ ''cd'' @ [newline]]) = [''ab'', ''cd'']
    \<and> stream_messages (concat [''ab'', ''cd'' @ [newline]]) = [''abcd'']\<close>
proof -
  let ?chunks = "[''ab'' @ [newline] @ ''cd'' @ [newline] @ ''e'', ''f'' @ [newline] @ [newline]]"
  have fit: "chunks_fit [] ?chunks"
    by (simp add: stream_remainder_def NUL_def newline_def MCP_BUFFER_SIZE_def)
  have run: "\<not> send_failed (handle_mcp_connection parse_nothing None ?chunks [76, 76, 76])"
    by (simp add: handle_mcp_connection_def strncat_def c_str_def NUL_def newline_def
        MCP_BUFFER_SIZE_def process_lines.simps strchr_newline_def dispatch_nothing_parsed)
  have stream: "stream_messages (concat ?chunks) = [''ab'', ''cd'', ''ef'']"
    "stream_remainder (concat ?chunks) = []"
    by (simp_all add: stream_messages_def stream_remainder_def newline_def)
  have whole: "dispatched (handle_mcp_connection parse_nothing None ?chunks [76, 76, 76]) =
      [''ab'', ''cd'', ''ef'']
    \<and> pending_data (handle_mcp_connection parse_nothing None ?chunks [76, 76, 76]) = []"
    using framer_dispatches_messages
      [of ?chunks parse_nothing None "[76, 76, 76]", THEN conjunct1] fit run stream
    by simp
  have two: "stream_messages (concat [''ab'' @ [newline] @ ''cd'' @ [newline]]) = [''ab'', ''cd'']"
    using framer_dispatches_messages
      [where ?m1.0 = "''ab''" and ?m2.0 = "''cd''",
        THEN conjunct2, THEN conjunct2, THEN conjunct1]
    by (simp add: newline_def)
  have split: "stream_messages (concat [''ab'', ''cd'' @ [newline]]) = [''abcd'']"
    using framer_dispatches_messages
      [where ?m1.0 = "''ab''" and ?m2.0 = "''cd''",
        THEN conjunct2, THEN conjunct2, THEN conjunct2, THEN conjunct1]
    by (simp add: newline_def)
  from whole two split show ?thesis
    by simp
qed

lemma no_newline_pending:
  "newline \<notin> set line_start \<Longrightarrow>
   process_lines cJSON_Parse led_command_queue line_start st = st\<lparr>pending_data := line_start\<rparr>"
  by (simp add: process_lines.simps [of _ _ line_start] strchr_newline_def)

text \<open>
  Claim C5, as stated, fails when a message does not fit: after a read of 4095 bytes
  without a newline the pending buffer is full, the newline that arrives in the next read
  is dropped, and the message is never dispatched.
\<close>

theorem framer_drops_full_buffer:
  \<open>stream_messages (concat [replicate 4095 (CHR ''a''), [newline]]) = [replicate 4095 (CHR ''a'')]
    \<and> \<not> send_failed (handle_mcp_connection parse_nothing None
          [replicate 4095 (CHR ''a''), [newline]] [])
    \<and> dispatched (handle_mcp_connection parse_nothing None
          [replicate 4095 (CHR ''a''), [newline]] []) = []
    \<and> pending_data (handle_mcp_connection parse_nothing None
          [replicate 4095 (CHR ''a''), [newline]] []) = replicate 4095 (CHR ''a'')\<close>
proof -
  let ?full = "replicate 4095 (CHR ''a'')"
  let ?st0 = "\<lparr>pending_data = [], send_results = [], dispatched = [], written = [],
    led_sends = [], send_failed = False\<rparr>"
  have plain: "newline \<notin> set ?full" "NUL \<notin> set ?full"
    by (simp_all add: newline_def NUL_def)
  have stream: "stream_messages (concat [?full, [newline]]) = [?full]"
    using stream_at_newline [OF plain(1), of "[]"] stream_no_newline [of "[]"]
    by simp
  have first: "strncat [] ?full (MCP_BUFFER_SIZE - length ([] :: string) - 1) = ?full"
    using strncat_fits [OF plain(2), of "[]"] by (simp add: MCP_BUFFER_SIZE_def)
  have second: "strncat ?full [newline] (MCP_BUFFER_SIZE - length ?full - 1) = ?full"
    by (simp add: strncat_def MCP_BUFFER_SIZE_def)
  have run: "handle_mcp_connection parse_nothing None [?full, [newline]] [] =
      ?st0\<lparr>pending_data := ?full\<rparr>"
    unfolding handle_mcp_connection_def
    using first second
    by (simp add: Let_def no_newline_pending [OF plain(1)])
  from stream run show ?thesis
    by simp
qed

end
